theory Spec2Isabelle
  imports Complex_Main "HOL-Library.Multiset"
begin

section \<open>Brain tumour volume preprocessing: intensity landmarks and minimum-volume crop\<close>

text \<open>
  A shallow embedding of \<^verbatim>\<open>BTCPreprocess\<close> (file \<^verbatim>\<open>src/btc_preprocess.py\<close>):
  \<^verbatim>\<open>_get_volume_landmarks\<close>, \<^verbatim>\<open>_intensity_transform\<close>, \<^verbatim>\<open>_merge_to_one_volume\<close> and
  \<^verbatim>\<open>_keep_minimum_volume\<close>.

  Voxel intensities are modelled as real numbers: the rounding of numpy's floating point
  and its NaN are outside the model. Array indices are Python integers, so \<open>int\<close>.
  The constants of \<^verbatim>\<open>btc_settings.py\<close> (\<^verbatim>\<open>PCTS\<close>, \<^verbatim>\<open>EDGE_SPACE\<close>, \<^verbatim>\<open>BRAIN_SHAPE\<close>,
  \<^verbatim>\<open>FULL_SHAPE\<close>) are parameters of the functions that read them.
\<close>

subsection \<open>Exceptions\<close>

text \<open>
  \<open>IndexError\<close> and \<open>ValueError\<close> are the exceptions numpy and Python raise on the paths
  modelled here. \<open>EmptyForegroundError\<close> and \<open>EmptyVolumeError\<close> are the exception names of
  the design document; no statement of the source raises them, and no definition below
  constructs them.
\<close>

datatype exn = IndexError | ValueError | EmptyForegroundError | EmptyVolumeError

subsection \<open>numpy primitives on one-dimensional data\<close>

text \<open>\<^verbatim>\<open>np.min\<close> of an array: a zero-size array raises \<open>ValueError\<close>.\<close>

fun np_min :: "('a::linorder) list \<Rightarrow> exn + 'a" where
  "np_min [] = Inl ValueError"
| "np_min (x # xs) = Inr (fold min xs x)"

text \<open>\<^verbatim>\<open>np.max\<close> of an array: a zero-size array raises \<open>ValueError\<close>.\<close>

fun np_max :: "('a::linorder) list \<Rightarrow> exn + 'a" where
  "np_max [] = Inl ValueError"
| "np_max (x # xs) = Inr (fold max xs x)"

text \<open>
  \<^verbatim>\<open>a[i]\<close> for an integer \<open>i\<close> on a Python list or a one-dimensional array: a negative index
  counts from the end, and an index outside the array raises \<open>IndexError\<close>.
\<close>

definition py_index :: "'a list \<Rightarrow> int \<Rightarrow> exn + 'a" where
  "py_index a i =
     (if 0 \<le> i \<and> i < int (length a) then Inr (a ! nat i)
      else if i < 0 \<and> - int (length a) \<le> i then Inr (a ! nat (int (length a) + i))
      else Inl IndexError)"

subsection \<open>Background correction\<close>

text \<open>
  A volume is used here only through reductions, element-wise operations and boolean
  masks, so it is modelled by the list of its voxels in storage order.
  \<^verbatim>\<open>
  volume_min = np.min(volume)
  if volume_min < 0:
      volume[np.where(volume == 0)] = volume_min
      volume = volume - np.min(volume)
  \<close>
\<close>

definition correct_background :: "real list \<Rightarrow> exn + real list" where
  "correct_background volume =
     (case np_min volume of
        Inl e \<Rightarrow> Inl e
      | Inr volume_min \<Rightarrow>
          if volume_min < 0 then
            (let volume1 = map (\<lambda>v. if v = 0 then volume_min else v) volume
             in case np_min volume1 of
                  Inl e \<Rightarrow> Inl e
                | Inr m \<Rightarrow> Inr (map (\<lambda>v. v - m) volume1))
          else Inr volume)"

subsection \<open>Percentile profile of one volume\<close>

text \<open>
  \<^verbatim>\<open>
  for p in PCTS:
      pct_idx = int(np.ceil(p * sort_len)) - 1
      if pct_idx < 0:
          pct_idx = 0
      one_volume_pct.append(sort[pct_idx])
  \<close>
  The loop, with the list built so far as accumulator; \<^verbatim>\<open>sort[pct_idx]\<close> raises
  \<open>IndexError\<close> outside the sorted array.
\<close>

fun pct_loop :: "real list \<Rightarrow> real list \<Rightarrow> real list \<Rightarrow> exn + real list" where
  "pct_loop srt [] one_volume_pct = Inr one_volume_pct"
| "pct_loop srt (p # ps) one_volume_pct =
     (let sort_len = length srt;
          pct_idx = \<lceil>p * real sort_len\<rceil> - 1;
          pct_idx = (if pct_idx < 0 then 0 else pct_idx)
      in case py_index srt pct_idx of
           Inl e \<Rightarrow> Inl e
         | Inr v \<Rightarrow> pct_loop srt ps (one_volume_pct @ [v]))"

text \<open>\<^verbatim>\<open>volume[np.where(volume > 0)]\<close>: the voxels that are not background.\<close>

definition foreground :: "real list \<Rightarrow> real list" where
  "foreground volume = filter (\<lambda>v. v > 0) volume"

text \<open>The body of the loop over the subjects: one volume to its percentile values.\<close>

definition one_volume_pct :: "real list \<Rightarrow> real list \<Rightarrow> exn + real list" where
  "one_volume_pct PCTS volume =
     (case correct_background volume of
        Inl e \<Rightarrow> Inl e
      | Inr volume' \<Rightarrow> pct_loop (sort (foreground volume')) PCTS [])"

subsection \<open>Landmarks of a cohort\<close>

text \<open>The loop over \<^verbatim>\<open>self.volume_no\<close>: the first volume that raises ends the computation.\<close>

fun all_volume_pct_loop :: "real list \<Rightarrow> real list list \<Rightarrow> real list list \<Rightarrow> exn + real list list" where
  "all_volume_pct_loop PCTS [] all_volume_pct = Inr all_volume_pct"
| "all_volume_pct_loop PCTS (volume # volumes) all_volume_pct =
     (case one_volume_pct PCTS volume of
        Inl e \<Rightarrow> Inl e
      | Inr pct \<Rightarrow> all_volume_pct_loop PCTS volumes (all_volume_pct @ [pct]))"

text \<open>
  \<^verbatim>\<open>np.mean(a, axis=0)\<close> on a two-dimensional array: the rows are added up one after the
  other, element by element, and the sum is divided by the number of rows. For no rows
  at all numpy answers the scalar NaN (with a warning, no exception): \<open>None\<close> here.
\<close>

definition add_rows :: "real list \<Rightarrow> real list \<Rightarrow> real list" where
  "add_rows r s = map (\<lambda>(x, y). x + y) (zip r s)"

fun np_mean_axis0 :: "real list list \<Rightarrow> real list option" where
  "np_mean_axis0 [] = None"
| "np_mean_axis0 (r # rs) =
     Some (map (\<lambda>s. s / real (length (r # rs))) (foldl add_rows r rs))"

definition get_volume_landmarks ::
  "real list \<Rightarrow> real list list \<Rightarrow> exn + (real list option \<times> real list list)" where
  "get_volume_landmarks PCTS volumes =
     (case all_volume_pct_loop PCTS volumes [] of
        Inl e \<Rightarrow> Inl e
      | Inr all_volume_pct \<Rightarrow> Inr (np_mean_axis0 all_volume_pct, all_volume_pct))"

text \<open>
  The non-background voxels of a volume as the two functions see them: after the
  background correction. A volume with no voxel at all has none.
\<close>

definition non_background :: "real list \<Rightarrow> real list" where
  "non_background volume =
     (case correct_background volume of Inl e \<Rightarrow> [] | Inr volume' \<Rightarrow> foreground volume')"

text \<open>The entry of a sorted array that the loop picks for the percentile \<open>p\<close>.\<close>

definition pct_value :: "real list \<Rightarrow> real \<Rightarrow> real" where
  "pct_value srt p = srt ! nat (max 0 (\<lceil>p * real (length srt)\<rceil> - 1))"

subsection \<open>Intensity transform of one volume\<close>

text \<open>
  \<^verbatim>\<open>np.interp(x, xp, fp)\<close> of the numpy library, for one \<open>x\<close>: left of the sample points the
  first value, right of them the last one, at the last sample point its value, and
  otherwise on the segment \<open>xp[j] \<le> x < xp[j+1]\<close> the value at \<open>xp[j]\<close> or the linear
  interpolation. The sample points are not checked to be increasing.
\<close>

fun interp_segments :: "real \<Rightarrow> real list \<Rightarrow> real list \<Rightarrow> real" where
  "interp_segments x (x0 # x1 # xp) (y0 # y1 # fp) =
     (if x < x1 then
        (if x0 = x then y0 else (y1 - y0) / (x1 - x0) * (x - x0) + y0)
      else interp_segments x (x1 # xp) (y1 # fp))"
| "interp_segments x [x0] (y0 # fp) = y0"
| "interp_segments x xp fp = 0"

definition interp_one :: "real list \<Rightarrow> real list \<Rightarrow> real \<Rightarrow> real" where
  "interp_one xp fp x =
     (if x < hd xp then hd fp
      else if last xp < x then last fp
      else interp_segments x xp fp)"

text \<open>
  The whole call: no sample point, or sample points and values of different lengths,
  raise \<open>ValueError\<close>.
\<close>

definition np_interp :: "real list \<Rightarrow> real list \<Rightarrow> real list \<Rightarrow> exn + real list" where
  "np_interp xs xp fp =
     (if xp = [] \<or> length fp \<noteq> length xp then Inl ValueError
      else Inr (map (interp_one xp fp) xs))"

text \<open>
  \<^verbatim>\<open>a[idx] = values\<close> and \<^verbatim>\<open>a[idx] = c\<close> where \<open>idx\<close> is the result of \<^verbatim>\<open>np.where\<close> on a
  condition: the positions are a boolean mask over the voxels, taken before the
  assignments.
\<close>

fun assign_mask :: "'a list \<Rightarrow> bool list \<Rightarrow> 'a list \<Rightarrow> 'a list" where
  "assign_mask (v # vs) (True # bs) (x # xs) = x # assign_mask vs bs xs"
| "assign_mask (v # vs) (False # bs) xs = v # assign_mask vs bs xs"
| "assign_mask vs bs xs = vs"

definition fill_mask :: "'a list \<Rightarrow> bool list \<Rightarrow> 'a \<Rightarrow> 'a list" where
  "fill_mask vs bs c = map (\<lambda>(v, b). if b then c else v) (zip vs bs)"

text \<open>
  The body of the loop of \<^verbatim>\<open>_intensity_transform\<close> for subject \<open>i\<close>; \<open>pct_i\<close> is the row
  \<^verbatim>\<open>pct[i, :]\<close>.
  \<^verbatim>\<open>
  higher_idx = np.where(volume >= pct[i, -1])
  lower_idx = np.where(volume < pct[i, 0])
  non_bg_idx = np.where(volume > 0)
  volume[non_bg_idx] = np.interp(volume[non_bg_idx], pct[i, :], landmarks)
  volume[higher_idx] = landmarks[-1]
  volume[lower_idx] = 0
  \<close>
\<close>

definition intensity_transform_one ::
  "real list \<Rightarrow> real list \<Rightarrow> real list \<Rightarrow> exn + real list" where
  "intensity_transform_one volume pct_i landmarks =
     (case correct_background volume of
        Inl e \<Rightarrow> Inl e
      | Inr volume \<Rightarrow>
     (case py_index pct_i (- 1) of
        Inl e \<Rightarrow> Inl e
      | Inr pct_last \<Rightarrow>
     (case py_index pct_i 0 of
        Inl e \<Rightarrow> Inl e
      | Inr pct_first \<Rightarrow>
          let higher_idx = map (\<lambda>v. v \<ge> pct_last) volume;
              lower_idx = map (\<lambda>v. v < pct_first) volume;
              non_bg_idx = map (\<lambda>v. v > 0) volume
          in
     (case np_interp (filter (\<lambda>v. v > 0) volume) pct_i landmarks of
        Inl e \<Rightarrow> Inl e
      | Inr new \<Rightarrow>
          let volume = assign_mask volume non_bg_idx new
          in
     (case py_index landmarks (- 1) of
        Inl e \<Rightarrow> Inl e
      | Inr landmarks_last \<Rightarrow>
          let volume = fill_mask volume higher_idx landmarks_last;
              volume = fill_mask volume lower_idx 0
          in Inr volume)))))"

subsection \<open>Arrays of three and four dimensions\<close>

text \<open>
  A three-dimensional array is a list of planes, a plane a list of rows, a row a list of
  entries; the merged volume has a list of channel values as entry.
\<close>

type_synonym 'a arr3 = "'a list list list"

definition flatten3 :: "'a arr3 \<Rightarrow> 'a list" where
  "flatten3 a = concat (concat a)"

text \<open>The shape of an array with no empty axis.\<close>

definition shape3 :: "'a arr3 \<Rightarrow> nat list" where
  "shape3 a = [length a, length (hd a), length (hd (hd a))]"

definition shape4 :: "'a list arr3 \<Rightarrow> nat list" where
  "shape4 a = [length a, length (hd a), length (hd (hd a)), length (hd (hd (hd a)))]"

text \<open>\<^verbatim>\<open>np.sum(full, axis=3)\<close>.\<close>

definition np_sum_axis3 :: "real list arr3 \<Rightarrow> real arr3" where
  "np_sum_axis3 full = map (map (map sum_list)) full"

text \<open>
  \<^verbatim>\<open>np.where(a > m)\<close> on a three-dimensional array: three index arrays, one per axis, with
  the positions in storage order.
\<close>

definition where_positions :: "real arr3 \<Rightarrow> real \<Rightarrow> (nat \<times> nat \<times> nat) list" where
  "where_positions a m =
     concat (map (\<lambda>(x, plane).
       concat (map (\<lambda>(y, row).
         map (\<lambda>(z, v). (x, y, z)) (filter (\<lambda>(z, v). v > m) (enumerate 0 row)))
       (enumerate 0 plane)))
     (enumerate 0 a))"

definition np_where_gt :: "real arr3 \<Rightarrow> real \<Rightarrow> int list list" where
  "np_where_gt a m =
     (let ps = where_positions a m
      in [map (\<lambda>(x, y, z). int x) ps, map (\<lambda>(x, y, z). int y) ps, map (\<lambda>(x, y, z). int z) ps])"

text \<open>
  A Python slice \<^verbatim>\<open>a[b:e]\<close>: a negative bound counts from the end, and bounds outside the
  array are cut to it without an error.
\<close>

definition py_slice :: "'a list \<Rightarrow> int \<Rightarrow> int \<Rightarrow> 'a list" where
  "py_slice a b e =
     (let n = int (length a);
          b' = (if b < 0 then max 0 (n + b) else min b n);
          e' = (if e < 0 then max 0 (n + e) else min e n)
      in take (nat (e' - b')) (drop (nat b') a))"

subsection \<open>Keeping the minimum volume\<close>

text \<open>
  \<^verbatim>\<open>
  def sub_array(arr, index_begin, index_end):
      return arr[index_begin[0]:index_end[0],
                 index_begin[1]:index_end[1],
                 index_begin[2]:index_end[2]]
  \<close>
\<close>

definition sub_array :: "'a arr3 \<Rightarrow> int list \<Rightarrow> int list \<Rightarrow> exn + 'a arr3" where
  "sub_array arr index_begin index_end =
     (case (py_index index_begin 0, py_index index_end 0,
            py_index index_begin 1, py_index index_end 1,
            py_index index_begin 2, py_index index_end 2) of
        (Inr b0, Inr e0, Inr b1, Inr e1, Inr b2, Inr e2) \<Rightarrow>
          Inr (map (\<lambda>plane. map (\<lambda>row. py_slice row b2 e2) (py_slice plane b1 e1))
                 (py_slice arr b0 e0))
      | _ \<Rightarrow> Inl IndexError)"

text \<open>A list comprehension over a function that may raise.\<close>

fun collect :: "('a \<Rightarrow> exn + 'b) \<Rightarrow> 'a list \<Rightarrow> exn + 'b list" where
  "collect f [] = Inr []"
| "collect f (x # xs) =
     (case f x of
        Inl e \<Rightarrow> Inl e
      | Inr y \<Rightarrow> (case collect f xs of Inl e \<Rightarrow> Inl e | Inr ys \<Rightarrow> Inr (y # ys)))"

text \<open>
  One round of the loop that adds the margin:
  \<^verbatim>\<open>
  dims_begin[i] = dims_begin[i] - EDGE_SPACE
  if dims_begin[i] < 0:
      dims_begin[i] = 0
  dims_end[i] = dims_end[i] + EDGE_SPACE
  if dims_end[i] > BRAIN_SHAPE[i] - 1:
      dims_end[i] = BRAIN_SHAPE[i] - 1
  \<close>
  \<open>dims_begin\<close> and \<open>dims_end\<close> have the same length and \<open>i\<close> is below it.
\<close>

definition expand_step ::
  "int \<Rightarrow> int list \<Rightarrow> nat \<Rightarrow> int list \<times> int list \<Rightarrow> exn + (int list \<times> int list)" where
  "expand_step EDGE_SPACE BRAIN_SHAPE i st =
     (let dims_begin = fst st; dims_end = snd st;
          dims_begin = dims_begin[i := dims_begin ! i - EDGE_SPACE];
          dims_begin = (if dims_begin ! i < 0 then dims_begin[i := 0] else dims_begin);
          dims_end = dims_end[i := dims_end ! i + EDGE_SPACE]
      in case py_index BRAIN_SHAPE (int i) of
           Inl e \<Rightarrow> Inl e
         | Inr s \<Rightarrow>
             Inr (dims_begin, if dims_end ! i > s - 1 then dims_end[i := s - 1] else dims_end))"

fun expand_loop ::
  "int \<Rightarrow> int list \<Rightarrow> nat list \<Rightarrow> int list \<times> int list \<Rightarrow> exn + (int list \<times> int list)" where
  "expand_loop EDGE_SPACE BRAIN_SHAPE [] st = Inr st"
| "expand_loop EDGE_SPACE BRAIN_SHAPE (i # is) st =
     (case expand_step EDGE_SPACE BRAIN_SHAPE i st of
        Inl e \<Rightarrow> Inl e
      | Inr st' \<Rightarrow> expand_loop EDGE_SPACE BRAIN_SHAPE is st')"

text \<open>
  The first part of \<^verbatim>\<open>_keep_minimum_volume\<close>, up to the end of the loop: the ranges of
  indices that are cut out.
  \<^verbatim>\<open>
  full_sum = np.sum(full, axis=3)
  min_full_sum = np.min(full_sum)
  non_bg_index = np.where(full_sum > min_full_sum)
  dims_begin = [np.min(nzi) for nzi in non_bg_index]
  dims_end = [np.max(nzi) + 1 for nzi in non_bg_index]
  for i in range(len(dims_begin)): ...
  \<close>
\<close>

definition crop_dims :: "int \<Rightarrow> int list \<Rightarrow> real list arr3 \<Rightarrow> exn + (int list \<times> int list)" where
  "crop_dims EDGE_SPACE BRAIN_SHAPE full =
     (let full_sum = np_sum_axis3 full
      in case np_min (flatten3 full_sum) of
           Inl e \<Rightarrow> Inl e
         | Inr min_full_sum \<Rightarrow>
             let non_bg_index = np_where_gt full_sum min_full_sum
             in (case collect np_min non_bg_index of
                   Inl e \<Rightarrow> Inl e
                 | Inr dims_begin \<Rightarrow>
                (case collect (\<lambda>nzi. map_sum id (\<lambda>m. m + 1) (np_max nzi)) non_bg_index of
                   Inl e \<Rightarrow> Inl e
                 | Inr dims_end \<Rightarrow>
                     expand_loop EDGE_SPACE BRAIN_SHAPE [0..<length dims_begin]
                       (dims_begin, dims_end))))"

text \<open>
  \<^verbatim>\<open>_keep_minimum_volume\<close>. The conversion of the cut volume to 32-bit floating point is
  not modelled.
\<close>

definition keep_minimum_volume ::
  "int \<Rightarrow> int list \<Rightarrow> real list arr3 \<Rightarrow> 'm arr3 \<Rightarrow> exn + (real list arr3 \<times> 'm arr3)" where
  "keep_minimum_volume EDGE_SPACE BRAIN_SHAPE full mask_volume =
     (case crop_dims EDGE_SPACE BRAIN_SHAPE full of
        Inl e \<Rightarrow> Inl e
      | Inr (dims_begin, dims_end) \<Rightarrow>
     (case sub_array full dims_begin dims_end of
        Inl e \<Rightarrow> Inl e
      | Inr new_full \<Rightarrow>
     (case sub_array mask_volume dims_begin dims_end of
        Inl e \<Rightarrow> Inl e
      | Inr new_mask \<Rightarrow> Inr (new_full, new_mask))))"

subsection \<open>Merging the channel volumes\<close>

text \<open>
  \<^verbatim>\<open>np.rot90(volume, 3, axes=(0, 1))\<close>: numpy swaps the first two axes and then reverses
  the second one, so that entry \<open>(i, j)\<close> of the result is entry \<open>(n - 1 - j, i)\<close> of the
  argument, \<open>n\<close> its first extent.
\<close>

definition rot90_3 :: "'a arr3 \<Rightarrow> 'a arr3" where
  "rot90_3 volume = map rev (transpose volume)"

text \<open>\<^verbatim>\<open>np.zeros(FULL_SHAPE)\<close> for a shape of four extents.\<close>

definition zeros4 :: "nat \<times> nat \<times> nat \<times> nat \<Rightarrow> real list arr3" where
  "zeros4 shp =
     (case shp of (n0, n1, n2, n3) \<Rightarrow>
        replicate n0 (replicate n1 (replicate n2 (replicate n3 0))))"

text \<open>
  \<^verbatim>\<open>full_volume[..., i] = volume\<close>: the channel \<open>i\<close> must exist (\<open>IndexError\<close>), and the
  volume must have the three spatial extents of the merged volume, or extent 1 where it
  is repeated along the axis (\<open>ValueError\<close> otherwise).
\<close>

definition broadcast_axis :: "nat \<Rightarrow> 'a list \<Rightarrow> 'a list option" where
  "broadcast_axis n xs =
     (if length xs = n then Some xs
      else if length xs = 1 then Some (replicate n (hd xs))
      else None)"

definition broadcast3 :: "nat \<Rightarrow> nat \<Rightarrow> nat \<Rightarrow> 'a arr3 \<Rightarrow> 'a arr3 option" where
  "broadcast3 n0 n1 n2 volume =
     (case those (map (\<lambda>plane.
              case those (map (broadcast_axis n2) plane) of
                None \<Rightarrow> None
              | Some plane' \<Rightarrow> broadcast_axis n1 plane') volume) of
        None \<Rightarrow> None
      | Some volume' \<Rightarrow> broadcast_axis n0 volume')"

definition set_channel ::
  "nat \<times> nat \<times> nat \<times> nat \<Rightarrow> real list arr3 \<Rightarrow> nat \<Rightarrow> real arr3 \<Rightarrow> exn + real list arr3" where
  "set_channel shp full_volume i volume =
     (case shp of (n0, n1, n2, n3) \<Rightarrow>
        if n3 \<le> i then Inl IndexError
        else (case broadcast3 n0 n1 n2 volume of
                None \<Rightarrow> Inl ValueError
              | Some volume' \<Rightarrow>
                  Inr (map (\<lambda>(fplane, vplane).
                         map (\<lambda>(frow, vrow).
                           map (\<lambda>(channels, v). channels[i := v]) (zip frow vrow))
                         (zip fplane vplane))
                       (zip full_volume volume'))))"

text \<open>
  The loop of \<^verbatim>\<open>_merge_to_one_volume\<close> over the volume types; \<open>volumes\<close> are the loaded
  volumes that are left, \<open>i\<close> the index of the first of them.
\<close>

fun merge_loop ::
  "nat \<times> nat \<times> nat \<times> nat \<Rightarrow> real list arr3 \<Rightarrow> nat \<Rightarrow> real arr3 list \<Rightarrow> exn + real list arr3" where
  "merge_loop shp full_volume i [] = Inr full_volume"
| "merge_loop shp full_volume i (volume # volumes) =
     (case set_channel shp full_volume i (rot90_3 volume) of
        Inl e \<Rightarrow> Inl e
      | Inr full_volume' \<Rightarrow> merge_loop shp full_volume' (Suc i) volumes)"

text \<open>
  \<^verbatim>\<open>_merge_to_one_volume\<close> without the files: \<open>volumes\<close> holds the normalised volume of
  each type in the order of \<^verbatim>\<open>VOLUME_TYPES\<close>, and the result is what is saved.
\<close>

definition merge_to_one_volume ::
  "int \<Rightarrow> int list \<Rightarrow> nat \<times> nat \<times> nat \<times> nat \<Rightarrow> real arr3 list \<Rightarrow> 'm arr3
     \<Rightarrow> exn + (real list arr3 \<times> 'm arr3)" where
  "merge_to_one_volume EDGE_SPACE BRAIN_SHAPE FULL_SHAPE volumes mask_volume =
     (case merge_loop FULL_SHAPE (zeros4 FULL_SHAPE) 0 volumes of
        Inl e \<Rightarrow> Inl e
      | Inr full_volume \<Rightarrow>
          keep_minimum_volume EDGE_SPACE BRAIN_SHAPE full_volume (rot90_3 mask_volume))"

subsection \<open>Volumes with a single non-background voxel\<close>

text \<open>
  The inputs of the merging scenario: a channel volume of shape \<open>(4, 4, 4)\<close> that is 0
  but for the value \<open>v\<close> at index \<open>(2, 2, 2)\<close>, and a merged volume of shape
  \<open>(4, 4, 4, 4)\<close> that is 0 in every channel but for the channel values \<open>cs\<close> at the
  voxel \<open>p\<close>.
\<close>

definition single_voxel_volume :: "real \<Rightarrow> real arr3" where
  "single_voxel_volume v =
     map (\<lambda>x. map (\<lambda>y. map (\<lambda>z. if (x, y, z) = (2, 2, 2) then v else 0)
       [0..<4]) [0..<4]) [0..<(4 :: nat)]"

definition single_voxel_full :: "nat \<times> nat \<times> nat \<Rightarrow> real list \<Rightarrow> real list arr3" where
  "single_voxel_full p cs =
     map (\<lambda>x. map (\<lambda>y. map (\<lambda>z. if (x, y, z) = p then cs else [0, 0, 0, 0])
       [0..<4]) [0..<4]) [0..<(4 :: nat)]"

section \<open>Properties of the landmark computation\<close>

lemma np_min_Inl: "np_min xs = Inl e \<longleftrightarrow> xs = [] \<and> e = ValueError"
  by (cases xs) auto

lemma correct_background_Inl:
  "correct_background volume = Inl e \<longleftrightarrow> volume = [] \<and> e = ValueError"
  by (cases volume) (auto simp: correct_background_def Let_def)

lemma correct_background_Nil [simp]: "correct_background [] = Inl ValueError"
  by (simp add: correct_background_def)

lemma correct_background_length:
  "correct_background volume = Inr v \<Longrightarrow> length v = length volume"
  by (cases volume) (auto simp: correct_background_def Let_def split: if_splits)

lemma pct_loop_empty: "PCTS \<noteq> [] \<Longrightarrow> pct_loop [] PCTS acc = Inl IndexError"
  by (cases PCTS) (auto simp: py_index_def)

lemma pct_loop_Inr_iff:
  "pct_loop srt ps acc = Inr prof \<longleftrightarrow>
     (\<forall>p\<in>set ps. \<lceil>p * real (length srt)\<rceil> \<le> int (length srt) \<and> srt \<noteq> []) \<and>
     prof = acc @ map (pct_value srt) ps"
proof (induction ps arbitrary: acc)
  case Nil
  show ?case by auto
next
  case (Cons p ps)
  show ?case
  proof (cases "srt \<noteq> [] \<and> \<lceil>p * real (length srt)\<rceil> \<le> int (length srt)")
    case True
    then have "0 < length srt" by simp
    with True have "py_index srt (if \<lceil>p * real (length srt)\<rceil> - 1 < 0 then 0 else \<lceil>p * real (length srt)\<rceil> - 1)
                 = Inr (pct_value srt p)"
      by (cases "\<lceil>p * real (length srt)\<rceil> - 1 < 0") (simp_all add: py_index_def pct_value_def max_def)
    with True show ?thesis
      by (simp add: Let_def Cons.IH)
  next
    case False
    then have "srt = [] \<or> \<not> \<lceil>p * real (length srt)\<rceil> - 1 < int (length srt)"
      by auto
    then have "py_index srt (if \<lceil>p * real (length srt)\<rceil> - 1 < 0 then 0 else \<lceil>p * real (length srt)\<rceil> - 1)
                 = Inl IndexError"
      by (cases "\<lceil>p * real (length srt)\<rceil> - 1 < 0") (auto simp: py_index_def)
    with False show ?thesis
      by (auto simp: Let_def)
  qed
qed

lemma pct_loop_Inl: "pct_loop srt ps acc = Inl e \<Longrightarrow> e = IndexError"
proof (induction ps arbitrary: acc)
  case Nil
  then show ?case by simp
next
  case (Cons p ps)
  then show ?case
    by (auto simp: Let_def py_index_def split: sum.splits if_splits)
qed

lemma ceiling_le_length:
  assumes "p \<le> 1"
  shows "\<lceil>p * real n\<rceil> \<le> int n"
proof -
  have "p * real n \<le> 1 * real n"
    using assms by (intro mult_right_mono) auto
  then have "p * real n \<le> real n" by simp
  then show ?thesis
    by (simp add: ceiling_le_iff)
qed

lemma ceiling_gt_length:
  assumes "1 < p" "0 < n"
  shows "\<not> \<lceil>p * real n\<rceil> \<le> int n"
proof -
  have "real n < p * real n"
    using assms by simp
  then show ?thesis
    by (simp add: ceiling_le_iff)
qed

lemma one_volume_pct_Inr_iff:
  "one_volume_pct PCTS volume = Inr prof \<longleftrightarrow>
     volume \<noteq> [] \<and>
     (\<forall>p\<in>set PCTS. p \<le> 1 \<and> non_background volume \<noteq> []) \<and>
     prof = map (pct_value (sort (non_background volume))) PCTS"
proof (cases "correct_background volume")
  case (Inl e)
  then show ?thesis
    by (auto simp: one_volume_pct_def correct_background_Inl)
next
  case (Inr v)
  then have ne: "volume \<noteq> []"
    by (auto simp: correct_background_def)
  have nb: "non_background volume = foreground v"
    by (simp add: non_background_def Inr)
  have "(\<forall>p\<in>set PCTS. \<lceil>p * real (length (sort (foreground v)))\<rceil> \<le> int (length (sort (foreground v))) \<and> sort (foreground v) \<noteq> [])
     \<longleftrightarrow> (\<forall>p\<in>set PCTS. p \<le> 1 \<and> foreground v \<noteq> [])"
    using ceiling_le_length ceiling_gt_length
    by (metis length_greater_0_conv length_sort not_le_imp_less)
  then show ?thesis
    by (simp add: one_volume_pct_def Inr pct_loop_Inr_iff nb ne)
qed

lemma one_volume_pct_Inl:
  "one_volume_pct PCTS volume = Inl e \<Longrightarrow> e = (if volume = [] then ValueError else IndexError)"
  by (auto simp: one_volume_pct_def correct_background_Inl split: sum.splits dest: pct_loop_Inl)

lemma sorted_pct_values:
  assumes "sorted ps" "\<forall>p\<in>set ps. p \<le> 1" "sorted srt" "srt \<noteq> []"
  shows "sorted (map (pct_value srt) ps)"
proof -
  have mono: "pct_value srt p \<le> pct_value srt q" if "p \<le> q" "q \<le> 1" for p q
  proof -
    have "\<lceil>p * real (length srt)\<rceil> \<le> \<lceil>q * real (length srt)\<rceil>"
      using that by (intro ceiling_mono mult_right_mono) auto
    moreover have "\<lceil>q * real (length srt)\<rceil> \<le> int (length srt)"
      using that ceiling_le_length by blast
    moreover have "0 < length srt" using assms by simp
    ultimately have "nat (max 0 (\<lceil>p * real (length srt)\<rceil> - 1)) \<le> nat (max 0 (\<lceil>q * real (length srt)\<rceil> - 1))"
      and "nat (max 0 (\<lceil>q * real (length srt)\<rceil> - 1)) < length srt"
      by arith+
    then show ?thesis
      unfolding pct_value_def using \<open>sorted srt\<close> by (simp add: sorted_nth_mono)
  qed
  have "sorted_wrt (\<lambda>p q. pct_value srt p \<le> pct_value srt q) ps"
    using assms(1,2) mono by (auto intro: sorted_wrt_mono_rel [where P = "(\<le>)"])
  then show ?thesis
    by (simp add: sorted_wrt_map)
qed

lemma all_volume_pct_loop_Inr_iff:
  "all_volume_pct_loop PCTS volumes acc = Inr r \<longleftrightarrow>
     (\<forall>v\<in>set volumes. \<exists>pct. one_volume_pct PCTS v = Inr pct) \<and>
     r = acc @ map (\<lambda>v. map (pct_value (sort (non_background v))) PCTS) volumes"
proof (induction volumes arbitrary: acc)
  case Nil
  show ?case by auto
next
  case (Cons v volumes)
  show ?case
  proof (cases "one_volume_pct PCTS v")
    case (Inl e)
    then show ?thesis by simp
  next
    case (Inr pct)
    then have "pct = map (pct_value (sort (non_background v))) PCTS"
      by (simp add: one_volume_pct_Inr_iff)
    with Inr show ?thesis
      by (simp add: Cons.IH)
  qed
qed

lemma all_volume_pct_loop_Inl:
  "all_volume_pct_loop PCTS volumes acc = Inl e \<Longrightarrow> e = IndexError \<or> e = ValueError"
proof (induction volumes arbitrary: acc)
  case Nil
  then show ?case by simp
next
  case (Cons v volumes)
  then show ?case
    by (cases "one_volume_pct PCTS v") (auto dest: one_volume_pct_Inl split: if_splits)
qed

lemma all_volume_pct_loop_fails:
  assumes "v \<in> set volumes" "one_volume_pct PCTS v = Inl e"
  shows "\<exists>e'. all_volume_pct_loop PCTS volumes acc = Inl e'"
proof (cases "all_volume_pct_loop PCTS volumes acc")
  case (Inl e')
  then show ?thesis by blast
next
  case (Inr r)
  then have "\<exists>pct. one_volume_pct PCTS v = Inr pct"
    using assms(1) by (simp add: all_volume_pct_loop_Inr_iff)
  with assms(2) show ?thesis by simp
qed

lemma length_add_rows: "length s = length r \<Longrightarrow> length (add_rows r s) = length r"
  by (simp add: add_rows_def)

lemma nth_add_rows:
  "length s = length r \<Longrightarrow> j < length r \<Longrightarrow> add_rows r s ! j = r ! j + s ! j"
  by (simp add: add_rows_def)

lemma foldl_add_rows:
  assumes "\<forall>s\<in>set rs. length s = length r"
  shows "length (foldl add_rows r rs) = length r \<and>
         (\<forall>j<length r. foldl add_rows r rs ! j = r ! j + (\<Sum>s\<leftarrow>rs. s ! j))"
  using assms
proof (induction rs arbitrary: r)
  case Nil
  show ?case by simp
next
  case (Cons s rs)
  have len: "length (add_rows r s) = length r"
    using Cons.prems by (simp add: length_add_rows)
  have "\<forall>t\<in>set rs. length t = length (add_rows r s)"
    using Cons.prems len by simp
  from Cons.IH [OF this] len Cons.prems show ?case
    by (simp add: nth_add_rows add.assoc)
qed

lemma np_mean_axis0_columns:
  assumes "rows \<noteq> []" "\<forall>r\<in>set rows. length r = n"
  shows "np_mean_axis0 rows =
           Some (map (\<lambda>j. (\<Sum>r\<leftarrow>rows. r ! j) / real (length rows)) [0..<n])"
proof (cases rows)
  case Nil
  with assms show ?thesis by simp
next
  case (Cons r rs)
  have lr: "length r = n" and "\<forall>s\<in>set rs. length s = length r"
    using assms(2) Cons by auto
  from foldl_add_rows [OF this(2)] lr
  have "length (foldl add_rows r rs) = n"
    and "\<forall>j<n. foldl add_rows r rs ! j = (\<Sum>s\<leftarrow>r # rs. s ! j)"
    by auto
  then have "map (\<lambda>s. s / real (length (r # rs))) (foldl add_rows r rs) =
             map (\<lambda>j. (\<Sum>s\<leftarrow>r # rs. s ! j) / real (length (r # rs))) [0..<n]"
    by (intro nth_equalityI) auto
  then show ?thesis
    by (simp add: Cons)
qed

lemma get_volume_landmarks_Inr_iff:
  "get_volume_landmarks PCTS volumes = Inr (landmarks, all_pct) \<longleftrightarrow>
     (\<forall>v\<in>set volumes. \<exists>pct. one_volume_pct PCTS v = Inr pct) \<and>
     all_pct = map (\<lambda>v. map (pct_value (sort (non_background v))) PCTS) volumes \<and>
     landmarks = np_mean_axis0 all_pct"
proof (cases "all_volume_pct_loop PCTS volumes []")
  case (Inl e)
  then have "\<not> (\<forall>v\<in>set volumes. \<exists>pct. one_volume_pct PCTS v = Inr pct)"
    using all_volume_pct_loop_Inr_iff [of PCTS volumes "[]"] by auto
  with Inl show ?thesis
    by (simp add: get_volume_landmarks_def)
next
  case (Inr r)
  then have "(\<forall>v\<in>set volumes. \<exists>pct. one_volume_pct PCTS v = Inr pct) \<and>
     r = map (\<lambda>v. map (pct_value (sort (non_background v))) PCTS) volumes"
    using all_volume_pct_loop_Inr_iff [of PCTS volumes "[]" r] by simp
  with Inr show ?thesis
    by (auto simp: get_volume_landmarks_def)
qed



text \<open>
  C1 (as amended). A volume with no non-background voxel makes the percentile
  computation raise, whenever at least one percentile is configured: \<open>ValueError\<close> for a
  volume with no voxel at all, \<open>IndexError\<close> (from reading entry 0 of the empty sorted
  array) otherwise; and the landmark computation of a cohort that holds such a volume
  raises one of these two. No profile is returned.
\<close>

theorem empty_foreground_raises_IndexError:
  assumes "PCTS \<noteq> []" and "non_background volume = []" and "volume \<in> set volumes"
  shows "one_volume_pct PCTS volume = Inl (if volume = [] then ValueError else IndexError) \<and>
         (get_volume_landmarks PCTS volumes = Inl IndexError \<or>
          get_volume_landmarks PCTS volumes = Inl ValueError)"
proof -
  have "\<not> (\<exists>prof. one_volume_pct PCTS volume = Inr prof)"
    using assms(1,2) by (cases PCTS) (auto simp: one_volume_pct_Inr_iff)
  then obtain e where e: "one_volume_pct PCTS volume = Inl e"
    by (cases "one_volume_pct PCTS volume") auto
  then have one: "one_volume_pct PCTS volume = Inl (if volume = [] then ValueError else IndexError)"
    using one_volume_pct_Inl by blast
  obtain e' where "all_volume_pct_loop PCTS volumes [] = Inl e'"
    using all_volume_pct_loop_fails [OF assms(3) e] by blast
  then have "get_volume_landmarks PCTS volumes = Inl e' \<and> (e' = IndexError \<or> e' = ValueError)"
    using all_volume_pct_loop_Inl by (auto simp: get_volume_landmarks_def)
  with one show ?thesis by blast
qed

theorem empty_foreground_raises_IndexError_witness:
  "[1 / 10, 1 / 2, 99 / 100] \<noteq> ([] :: real list) \<and> non_background [0, 0, 0] = [] \<and>
   [0, 0, 0] \<in> set [[0, 7, 3], [0, 0, 0 :: real]] \<and>
   one_volume_pct [1 / 10, 1 / 2, 99 / 100] [0, 0, 0] = Inl IndexError \<and>
   (get_volume_landmarks [1 / 10, 1 / 2, 99 / 100] [[0, 7, 3], [0, 0, 0]] = Inl IndexError \<or>
    get_volume_landmarks [1 / 10, 1 / 2, 99 / 100] [[0, 7, 3], [0, 0, 0]] = Inl ValueError)"
proof -
  have a: "[1 / 10, 1 / 2, 99 / 100] \<noteq> ([] :: real list)" by simp
  have b: "non_background [0, 0, 0] = []"
    by (simp add: non_background_def correct_background_def foreground_def)
  have c: "[0, 0, 0] \<in> set [[0, 7, 3], [0, 0, 0 :: real]]" by simp
  from empty_foreground_raises_IndexError [OF a b c] a b c show ?thesis by simp
qed

theorem empty_foreground_not_EmptyForegroundError:
  "non_background [0, 0, 0] = [] \<and>
   one_volume_pct [1 / 10, 1 / 2, 99 / 100] [0, 0, 0] = Inl IndexError \<and>
   one_volume_pct [1 / 10, 1 / 2, 99 / 100] [0, 0, 0] \<noteq> Inl EmptyForegroundError \<and>
   get_volume_landmarks [1 / 10, 1 / 2, 99 / 100] [[0, 0, 0]] \<noteq> Inl EmptyForegroundError"
  by (simp add: non_background_def get_volume_landmarks_def one_volume_pct_def
      correct_background_def foreground_def py_index_def)



text \<open>
  C8. For a volume with at least one non-background voxel, and increasing percentile
  points that are at most 1, the percentile profile is computed and is non-decreasing.
\<close>

theorem profile_nondecreasing:
  assumes "non_background volume \<noteq> []" and "sorted PCTS" and "\<forall>p\<in>set PCTS. p \<le> 1"
  shows "\<exists>prof. one_volume_pct PCTS volume = Inr prof \<and> length prof = length PCTS \<and>
           sorted prof"
proof -
  have ne: "volume \<noteq> []"
    using assms(1) by (auto simp: non_background_def)
  have run: "one_volume_pct PCTS volume = Inr (map (pct_value (sort (non_background volume))) PCTS)"
    using assms ne by (simp add: one_volume_pct_Inr_iff)
  have "sort (non_background volume) \<noteq> []"
    using assms(1) by (metis length_0_conv length_sort)
  then have "sorted (map (pct_value (sort (non_background volume))) PCTS)"
    using assms(2,3) by (intro sorted_pct_values) auto
  with run show ?thesis by simp
qed

theorem profile_nondecreasing_witness:
  "non_background [0, 30, 10, 20, 40] \<noteq> [] \<and> sorted [1 / 4, 1 / 2, 1 :: real] \<and>
   (1 :: real) / 4 \<le> 1 \<and> (1 :: real) / 2 \<le> 1 \<and> (1 :: real) \<le> 1 \<and>
   (\<exists>prof. one_volume_pct [1 / 4, 1 / 2, 1] [0, 30, 10, 20, 40] = Inr prof \<and>
      length prof = 3 \<and> sorted prof)"
proof -
  have a: "non_background [0, 30, 10, 20, 40] \<noteq> []"
    by (simp add: non_background_def correct_background_def foreground_def)
  have b: "sorted [1 / 4, 1 / 2, 1 :: real]" by simp
  have c: "\<forall>p\<in>set [1 / 4, 1 / 2, 1 :: real]. p \<le> 1" by simp
  from profile_nondecreasing [OF a b c] a b c show ?thesis
    by (simp add: numeral_3_eq_3)
qed

text \<open>
  C6. For a cohort that is not empty, a landmark computation that returns gives one
  percentile profile per subject, the one computed for that subject, and landmarks that
  are, position by position, the sum of the subjects' profile entries divided by the
  number of subjects. The profiles \<open>[10, 20, 30]\<close> and \<open>[30, 40, 50]\<close> give the landmarks
  \<open>[20, 30, 40]\<close>.
\<close>

theorem landmarks_are_mean:
  assumes "volumes \<noteq> []"
    and "get_volume_landmarks PCTS volumes = Inr (landmarks, all_pct)"
  shows "map (one_volume_pct PCTS) volumes = map Inr all_pct \<and>
         landmarks = Some (map (\<lambda>j. (\<Sum>pct\<leftarrow>all_pct. pct ! j) / real (length volumes))
                             [0..<length PCTS]) \<and>
         np_mean_axis0 [[10, 20, 30], [30, 40, 50]] = Some [20, 30, 40]"
proof -
  from assms(2) have ok: "\<forall>v\<in>set volumes. \<exists>pct. one_volume_pct PCTS v = Inr pct"
    and all: "all_pct = map (\<lambda>v. map (pct_value (sort (non_background v))) PCTS) volumes"
    and lm: "landmarks = np_mean_axis0 all_pct"
    by (simp_all add: get_volume_landmarks_Inr_iff)
  have first: "map (one_volume_pct PCTS) volumes = map Inr all_pct"
    using ok by (auto simp: all one_volume_pct_Inr_iff)
  have "all_pct \<noteq> []" "\<forall>r\<in>set all_pct. length r = length PCTS" "length all_pct = length volumes"
    using assms(1) by (auto simp: all)
  then have second: "landmarks = Some (map (\<lambda>j. (\<Sum>pct\<leftarrow>all_pct. pct ! j) / real (length volumes))
                             [0..<length PCTS])"
    using np_mean_axis0_columns [of all_pct "length PCTS"] by (simp add: lm)
  have third: "np_mean_axis0 [[10, 20, 30], [30, 40, 50]] = Some [20, 30, 40]"
    by (simp add: add_rows_def)
  from first second third show ?thesis by blast
qed

theorem landmarks_are_mean_witness:
  "[[10, 20, 30], [50, 40, 0, 30]] \<noteq> ([] :: real list list) \<and>
   get_volume_landmarks [1 / 3, 2 / 3, 1] [[10, 20, 30], [50, 40, 0, 30]] =
     Inr (Some [20, 30, 40], [[10, 20, 30], [30, 40, 50]]) \<and>
   map (one_volume_pct [1 / 3, 2 / 3, 1]) [[10, 20, 30], [50, 40, 0, 30]] =
     map Inr [[10, 20, 30], [30, 40, 50]] \<and>
   Some [20, 30, 40 :: real] =
     Some (map (\<lambda>j. (\<Sum>pct\<leftarrow>[[10, 20, 30], [30, 40, 50]]. pct ! j) / real (length [[10, 20, 30], [50, 40, 0, 30 :: real]]))
             [0..<length [1 / 3, 2 / 3, 1 :: real]])"
proof -
  have a: "[[10, 20, 30], [50, 40, 0, 30]] \<noteq> ([] :: real list list)" by simp
  have b: "get_volume_landmarks [1 / 3, 2 / 3, 1] [[10, 20, 30], [50, 40, 0, 30]] =
     Inr (Some [20, 30, 40], [[10, 20, 30], [30, 40, 50]])"
    by (simp add: get_volume_landmarks_def one_volume_pct_def correct_background_def
        foreground_def py_index_def add_rows_def)
  from landmarks_are_mean [OF a b] a b show ?thesis by blast
qed



section \<open>Properties of the intensity transform\<close>

lemma py_index_last: "a \<noteq> [] \<Longrightarrow> py_index a (- 1) = Inr (last a)"
proof -
  assume ne: "a \<noteq> []"
  then have "nat (int (length a) + - 1) = length a - 1"
    by (cases a) auto
  moreover have "- int (length a) \<le> - 1"
    using ne by (cases a) auto
  ultimately show ?thesis
    using ne by (simp add: py_index_def last_conv_nth)
qed

lemma py_index_first: "a \<noteq> [] \<Longrightarrow> py_index a 0 = Inr (hd a)"
  by (simp add: py_index_def hd_conv_nth)

lemma assign_mask_map:
  "assign_mask vs (map P vs) (map f (filter P vs)) = map (\<lambda>v. if P v then f v else v) vs"
  by (induction vs) auto

lemma fill_mask_map:
  "fill_mask (map g vs) (map P vs) c = map (\<lambda>v. if P v then c else g v) vs"
  by (induction vs) (auto simp: fill_mask_def)

lemma intensity_transform_one_value:
  assumes "correct_background volume = Inr v" and "pct_i \<noteq> []"
    and "length landmarks = length pct_i"
  shows "intensity_transform_one volume pct_i landmarks =
           Inr (map (\<lambda>x. if x < hd pct_i then 0
                         else if last pct_i \<le> x then last landmarks
                         else if 0 < x then interp_one pct_i landmarks x
                         else x) v)"
proof -
  have lm: "landmarks \<noteq> []"
    using assms(2,3) by auto
  have interp: "np_interp (filter (\<lambda>x. 0 < x) v) pct_i landmarks =
                  Inr (map (interp_one pct_i landmarks) (filter (\<lambda>x. 0 < x) v))"
    using assms(2,3) by (simp add: np_interp_def)
  have step1: "assign_mask v (map (\<lambda>x. 0 < x) v)
                 (map (interp_one pct_i landmarks) (filter (\<lambda>x. 0 < x) v)) =
               map (\<lambda>x. if 0 < x then interp_one pct_i landmarks x else x) v"
    by (rule assign_mask_map)
  show ?thesis
    unfolding intensity_transform_one_def
    by (simp add: assms(1) py_index_last [OF assms(2)] py_index_first [OF assms(2)]
        py_index_last [OF lm] interp step1 fill_mask_map Let_def)
qed

lemma sorted_hd_Min:
  assumes "sorted xs" and "xs \<noteq> []"
  shows "hd xs = Min (set xs)"
proof -
  obtain x ys where xs: "xs = x # ys"
    using assms(2) by (cases xs) auto
  have "Min (set xs) = x"
  proof (rule Min_eqI)
    show "finite (set xs)" by simp
    show "x \<in> set xs" by (simp add: xs)
    fix y assume "y \<in> set xs"
    then show "x \<le> y" using assms(1) xs by auto
  qed
  then show ?thesis by (simp add: xs)
qed

lemma sorted_le_last: "sorted xs \<Longrightarrow> y \<in> set xs \<Longrightarrow> y \<le> last xs"
proof (induction xs)
  case Nil
  then show ?case by simp
next
  case (Cons a xs)
  show ?case
  proof (cases "xs = []")
    case True
    with Cons.prems show ?thesis by simp
  next
    case False
    then have "last xs \<in> set xs" by simp
    with Cons False show ?thesis by auto
  qed
qed

lemma sorted_last_Max:
  assumes "sorted xs" and "xs \<noteq> []"
  shows "last xs = Max (set xs)"
proof -
  have "Max (set xs) = last xs"
  proof (rule Max_eqI)
    show "finite (set xs)" by simp
    show "last xs \<in> set xs" using assms(2) by simp
    fix y assume y: "y \<in> set xs"
    show "y \<le> last xs" using assms(1) y by (rule sorted_le_last)
  qed
  then show ?thesis by simp
qed

text \<open>
  C4. For a volume with at least one voxel, a subject profile and landmarks of the same
  positive length, both non-decreasing, the transform returns a volume of the same size
  in which every voxel that is (after the background correction) at or above the
  subject's maximum percentile value holds the maximum of the landmarks, every voxel
  below the subject's minimum percentile value holds 0, and every other non-background
  voxel holds its interpolated value.
\<close>

theorem transform_overwrites_high_and_low:
  assumes "volume \<noteq> []" and "pct_i \<noteq> []" and "length landmarks = length pct_i"
    and "sorted pct_i" and "sorted landmarks"
  shows "\<exists>v out. correct_background volume = Inr v \<and>
           intensity_transform_one volume pct_i landmarks = Inr out \<and>
           length out = length volume \<and>
           (\<forall>k<length volume.
              (Max (set pct_i) \<le> v ! k \<longrightarrow> out ! k = Max (set landmarks)) \<and>
              (v ! k < Min (set pct_i) \<longrightarrow> out ! k = 0) \<and>
              (Min (set pct_i) \<le> v ! k \<and> v ! k < Max (set pct_i) \<and> 0 < v ! k \<longrightarrow>
                 out ! k = interp_one pct_i landmarks (v ! k)))"
proof -
  obtain v where v: "correct_background volume = Inr v"
    using assms(1) by (cases "correct_background volume") (auto simp: correct_background_Inl)
  have len: "length v = length volume"
    using v by (rule correct_background_length)
  let ?g = "\<lambda>x. if x < hd pct_i then 0
                 else if last pct_i \<le> x then last landmarks
                 else if 0 < x then interp_one pct_i landmarks x
                 else x"
  have run: "intensity_transform_one volume pct_i landmarks = Inr (map ?g v)"
    using v assms(2,3) by (rule intensity_transform_one_value)
  have lm: "landmarks \<noteq> []"
    using assms(2,3) by auto
  have hd: "hd pct_i = Min (set pct_i)" and last: "last pct_i = Max (set pct_i)"
    and lastl: "last landmarks = Max (set landmarks)"
    using assms(2,4,5) lm by (simp_all add: sorted_hd_Min sorted_last_Max)
  have le: "Min (set pct_i) \<le> Max (set pct_i)"
    using assms(2) by simp
  have "\<forall>k<length volume.
          (Max (set pct_i) \<le> v ! k \<longrightarrow> map ?g v ! k = Max (set landmarks)) \<and>
          (v ! k < Min (set pct_i) \<longrightarrow> map ?g v ! k = 0) \<and>
          (Min (set pct_i) \<le> v ! k \<and> v ! k < Max (set pct_i) \<and> 0 < v ! k \<longrightarrow>
             map ?g v ! k = interp_one pct_i landmarks (v ! k))"
    using le by (auto simp: len hd last lastl)
  with v run len show ?thesis
    by (intro exI [of _ v] exI [of _ "map ?g v"]) simp
qed

theorem transform_overwrites_high_and_low_witness:
  "[0, 5, 10, 15, 20, 25, 30, 40] \<noteq> ([] :: real list) \<and> [10, 20, 30] \<noteq> ([] :: real list) \<and>
   length [100, 200, 400 :: real] = length [10, 20, 30 :: real] \<and>
   sorted [10, 20, 30 :: real] \<and> sorted [100, 200, 400 :: real] \<and>
   intensity_transform_one [0, 5, 10, 15, 20, 25, 30, 40] [10, 20, 30] [100, 200, 400] =
     Inr [0, 0, 100, 150, 200, 300, 400, 400] \<and>
   (\<exists>v out. correct_background [0, 5, 10, 15, 20, 25, 30, 40] = Inr v \<and>
      intensity_transform_one [0, 5, 10, 15, 20, 25, 30, 40] [10, 20, 30] [100, 200, 400] = Inr out \<and>
      (Max (set [10, 20, 30]) \<le> v ! 7 \<and> out ! 7 = Max (set [100, 200, 400])) \<and>
      (v ! 1 < Min (set [10, 20, 30]) \<and> out ! 1 = 0))"
proof -
  have a: "[0, 5, 10, 15, 20, 25, 30, 40] \<noteq> ([] :: real list)" by simp
  have b: "[10, 20, 30] \<noteq> ([] :: real list)" by simp
  have c: "length [100, 200, 400 :: real] = length [10, 20, 30 :: real]" by simp
  have d: "sorted [10, 20, 30 :: real]" by simp
  have e: "sorted [100, 200, 400 :: real]" by simp
  have v: "correct_background [0, 5, 10, 15, 20, 25, 30, 40] = Inr [0, 5, 10, 15, 20, 25, 30, 40]"
    by (simp add: correct_background_def)
  have run: "intensity_transform_one [0, 5, 10, 15, 20, 25, 30, 40] [10, 20, 30] [100, 200, 400] =
     Inr [0, 0, 100, 150, 200, 300, 400, 400]"
    by (simp add: intensity_transform_one_def v py_index_def np_interp_def interp_one_def
        fill_mask_def)
  from transform_overwrites_high_and_low [OF a b c d e] obtain v' out where
    "correct_background [0, 5, 10, 15, 20, 25, 30, 40] = Inr v'"
    "intensity_transform_one [0, 5, 10, 15, 20, 25, 30, 40] [10, 20, 30] [100, 200, 400] = Inr out"
    by blast
  with v run have "v' = [0, 5, 10, 15, 20, 25, 30, 40]" "out = [0, 0, 100, 150, 200, 300, 400, 400]"
    by simp_all
  then have "(Max (set [10, 20, 30]) \<le> v' ! 7 \<and> out ! 7 = Max (set [100, 200, 400])) \<and>
      (v' ! 1 < Min (set [10, 20, 30]) \<and> out ! 1 = 0)"
    by simp
  with a c d e v run \<open>v' = _\<close> \<open>out = _\<close> show ?thesis
    by blast
qed

section \<open>Properties of the minimum-volume crop\<close>

lemma np_min_Min: "xs \<noteq> [] \<Longrightarrow> np_min xs = Inr (Min (set xs))"
proof (cases xs)
  case Nil
  assume "xs \<noteq> []"
  with Nil show ?thesis by simp
next
  case (Cons x ys)
  show ?thesis
    using Min.set_eq_fold [of x ys] by (simp add: Cons)
qed

lemma np_max_Max: "xs \<noteq> [] \<Longrightarrow> np_max xs = Inr (Max (set xs))"
proof (cases xs)
  case Nil
  assume "xs \<noteq> []"
  with Nil show ?thesis by simp
next
  case (Cons x ys)
  show ?thesis
    using Max.set_eq_fold [of x ys] by (simp add: Cons)
qed

lemma where_positions_Nil:
  assumes "\<forall>v\<in>set (flatten3 a). \<not> m < v"
  shows "where_positions a m = []"
proof -
  have "filter (\<lambda>(z, v). m < v) (enumerate 0 (a ! x ! y)) = []"
    if "x < length a" "y < length (a ! x)" for x y
  proof -
    have "a ! x \<in> set a" "a ! x ! y \<in> set (a ! x)"
      using that by simp_all
    then have "\<forall>v\<in>set (a ! x ! y). \<not> m < v"
      using assms by (auto simp: flatten3_def)
    then show ?thesis
      by (auto simp: filter_empty_conv in_set_enumerate_eq)
  qed
  then show ?thesis
    unfolding where_positions_def
    by (auto simp: in_set_enumerate_eq)
qed

lemma np_where_gt_Nil:
  "where_positions a m = [] \<Longrightarrow> np_where_gt a m = [[], [], []]"
  by (simp add: np_where_gt_def)

lemma np_where_gt_shape:
  "\<exists>X Y Z. np_where_gt a m = [X, Y, Z] \<and> length X = length (where_positions a m) \<and>
     length Y = length X \<and> length Z = length X"
  by (simp add: np_where_gt_def Let_def)

lemma upt_3: "[0..<3] = [0, Suc 0, Suc (Suc 0)]"
  by (simp add: numeral_3_eq_3 upt_rec)

lemma py_index_nat:
  "py_index B (int i) = (if i < length B then Inr (B ! i) else Inl IndexError)"
  by (simp add: py_index_def)

lemma expand_step_value:
  assumes "i < length dims_begin" and "i < length dims_end"
  shows "expand_step E B i (dims_begin, dims_end) =
     (if i < length B then
        Inr (dims_begin[i := max 0 (dims_begin ! i - E)],
             dims_end[i := min (dims_end ! i + E) (B ! i - 1)])
      else Inl IndexError)"
proof (cases "i < length B")
  case True
  then have "py_index B (int i) = Inr (B ! i)"
    by (simp add: py_index_nat)
  then show ?thesis
    using True assms by (simp add: expand_step_def Let_def max_def min_def)
next
  case False
  then have "py_index B (int i) = Inl IndexError"
    by (simp add: py_index_nat)
  then show ?thesis
    using False by (simp add: expand_step_def Let_def)
qed

lemma expand_loop_3:
  "expand_loop E B [0..<3] ([b0, b1, b2], [e0, e1, e2]) =
     (if 3 \<le> length B then
        Inr ([max 0 (b0 - E), max 0 (b1 - E), max 0 (b2 - E)],
             [min (e0 + E) (B ! 0 - 1), min (e1 + E) (B ! 1 - 1), min (e2 + E) (B ! 2 - 1)])
      else Inl IndexError)"
proof -
  have two: "B ! 2 = B ! Suc (Suc 0)"
    by (simp add: numeral_2_eq_2)
  have s0: "expand_step E B 0 ([b0, b1, b2], [e0, e1, e2]) =
      (if 0 < length B then
         Inr ([max 0 (b0 - E), b1, b2], [min (e0 + E) (B ! 0 - 1), e1, e2])
       else Inl IndexError)"
    by (simp add: expand_step_value)
  have s1: "expand_step E B (Suc 0) ([x0, b1, b2], [y0, e1, e2]) =
      (if Suc 0 < length B then
         Inr ([x0, max 0 (b1 - E), b2], [y0, min (e1 + E) (B ! Suc 0 - 1), e2])
       else Inl IndexError)" for x0 y0
    by (simp add: expand_step_value)
  have s2: "expand_step E B (Suc (Suc 0)) ([x0, x1, b2], [y0, y1, e2]) =
      (if Suc (Suc 0) < length B then
         Inr ([x0, x1, max 0 (b2 - E)], [y0, y1, min (e2 + E) (B ! Suc (Suc 0) - 1)])
       else Inl IndexError)" for x0 x1 y0 y1
    by (simp add: expand_step_value)
  have "expand_loop E B [0, Suc 0, Suc (Suc 0)] ([b0, b1, b2], [e0, e1, e2]) =
     (if Suc (Suc 0) < length B then
        Inr ([max 0 (b0 - E), max 0 (b1 - E), max 0 (b2 - E)],
             [min (e0 + E) (B ! 0 - 1), min (e1 + E) (B ! Suc 0 - 1),
              min (e2 + E) (B ! Suc (Suc 0) - 1)])
      else Inl IndexError)"
  proof (cases "Suc (Suc 0) < length B")
    case True
    then have "0 < length B" "Suc 0 < length B" by linarith+
    with True show ?thesis
      by (simp only: expand_loop.simps s0 s1 s2 if_True sum.case)
  next
    case False
    show ?thesis
    proof (cases "0 < length B")
      case l0: True
      show ?thesis
      proof (cases "Suc 0 < length B")
        case True
        with False l0 show ?thesis
          by (simp only: expand_loop.simps s0 s1 s2 if_True if_False sum.case)
      next
        case l1: False
        with False l0 show ?thesis
          by (simp only: expand_loop.simps s0 s1 if_True if_False sum.case)
      qed
    next
      case l0: False
      with False show ?thesis
        by (simp only: expand_loop.simps s0 if_False sum.case)
    qed
  qed
  moreover have "Suc (Suc 0) < length B \<longleftrightarrow> 3 \<le> length B"
    by linarith
  ultimately show ?thesis
    by (simp only: upt_3 two One_nat_def)
qed

lemma collect_3:
  "collect f [X, Y, Z] =
     (case f X of Inl e \<Rightarrow> Inl e
      | Inr a \<Rightarrow> (case f Y of Inl e \<Rightarrow> Inl e
      | Inr b \<Rightarrow> (case f Z of Inl e \<Rightarrow> Inl e
      | Inr c \<Rightarrow> Inr [a, b, c])))"
  by (simp split: sum.splits)

lemma crop_dims_no_foreground:
  assumes "np_min (flatten3 (np_sum_axis3 full)) = Inr m"
    and "where_positions (np_sum_axis3 full) m = []"
  shows "crop_dims E B full = Inl ValueError"
  using assms by (simp add: crop_dims_def np_where_gt_Nil)

lemma crop_dims_foreground:
  assumes "np_min (flatten3 (np_sum_axis3 full)) = Inr m"
    and "np_where_gt (np_sum_axis3 full) m = [X, Y, Z]"
    and "X \<noteq> []" and "Y \<noteq> []" and "Z \<noteq> []"
  shows "crop_dims E B full =
     (if 3 \<le> length B then
        Inr ([max 0 (Min (set X) - E), max 0 (Min (set Y) - E), max 0 (Min (set Z) - E)],
             [min (Max (set X) + 1 + E) (B ! 0 - 1), min (Max (set Y) + 1 + E) (B ! 1 - 1),
              min (Max (set Z) + 1 + E) (B ! 2 - 1)])
      else Inl IndexError)"
proof -
  have b: "collect np_min [X, Y, Z] = Inr [Min (set X), Min (set Y), Min (set Z)]"
    using assms(3-5) by (simp add: collect_3 np_min_Min del: collect.simps)
  have e: "collect (\<lambda>nzi. map_sum id (\<lambda>m. m + 1) (np_max nzi)) [X, Y, Z] =
             Inr [Max (set X) + 1, Max (set Y) + 1, Max (set Z) + 1]"
    using assms(3-5) by (simp add: collect_3 np_max_Max del: collect.simps)
  have l: "[0..<length [Min (set X), Min (set Y), Min (set Z)]] = [0..<3]"
    by (simp add: upt_3)
  show ?thesis
    unfolding crop_dims_def Let_def
    by (simp only: assms(1,2) b e sum.case l expand_loop_3)
qed

lemma crop_dims_Inr:
  assumes "crop_dims E B full = Inr (dims_begin, dims_end)"
  shows "\<exists>m X Y Z. np_min (flatten3 (np_sum_axis3 full)) = Inr m \<and>
           np_where_gt (np_sum_axis3 full) m = [X, Y, Z] \<and>
           X \<noteq> [] \<and> Y \<noteq> [] \<and> Z \<noteq> [] \<and> 3 \<le> length B \<and>
           dims_begin = [max 0 (Min (set X) - E), max 0 (Min (set Y) - E),
                         max 0 (Min (set Z) - E)] \<and>
           dims_end = [min (Max (set X) + 1 + E) (B ! 0 - 1),
                       min (Max (set Y) + 1 + E) (B ! 1 - 1),
                       min (Max (set Z) + 1 + E) (B ! 2 - 1)]"
proof (cases "np_min (flatten3 (np_sum_axis3 full))")
  case (Inl e)
  with assms show ?thesis
    by (simp add: crop_dims_def)
next
  case (Inr m)
  obtain X Y Z where w: "np_where_gt (np_sum_axis3 full) m = [X, Y, Z]"
    and len: "length X = length (where_positions (np_sum_axis3 full) m)"
      "length Y = length X" "length Z = length X"
    using np_where_gt_shape by blast
  show ?thesis
  proof (cases "where_positions (np_sum_axis3 full) m = []")
    case True
    have "crop_dims E B full = Inl ValueError"
      using Inr True by (rule crop_dims_no_foreground)
    with assms show ?thesis by simp
  next
    case False
    with len have ne: "X \<noteq> []" "Y \<noteq> []" "Z \<noteq> []"
      by auto
    from crop_dims_foreground [OF Inr w ne, of E B] assms
    have "3 \<le> length B \<and>
           dims_begin = [max 0 (Min (set X) - E), max 0 (Min (set Y) - E),
                         max 0 (Min (set Z) - E)] \<and>
           dims_end = [min (Max (set X) + 1 + E) (B ! 0 - 1),
                       min (Max (set Y) + 1 + E) (B ! 1 - 1),
                       min (Max (set Z) + 1 + E) (B ! 2 - 1)]"
      by (cases "3 \<le> length B") simp_all
    with Inr w ne show ?thesis by blast
  qed
qed

lemma sub_array_3:
  "sub_array arr [b0, b1, b2] [e0, e1, e2] =
     Inr (map (\<lambda>plane. map (\<lambda>row. py_slice row b2 e2) (py_slice plane b1 e1))
            (py_slice arr b0 e0))"
  by (simp add: sub_array_def py_index_def)

lemma keep_minimum_volume_Inr:
  assumes "crop_dims E B full = Inr (dims_begin, dims_end)"
  shows "\<exists>new_full new_mask.
           keep_minimum_volume E B full mask_volume = Inr (new_full, new_mask)"
proof -
  from crop_dims_Inr [OF assms] obtain b0 b1 b2 e0 e1 e2
    where "dims_begin = [b0, b1, b2]" "dims_end = [e0, e1, e2]"
    by blast
  then show ?thesis
    by (simp add: keep_minimum_volume_def assms sub_array_3)
qed

lemma keep_minimum_volume_Inl:
  "crop_dims E B full = Inl e \<Longrightarrow> keep_minimum_volume E B full mask_volume = Inl e"
  by (simp add: keep_minimum_volume_def)

lemma crop_dims_axis:
  assumes "crop_dims E B full = Inr (dims_begin, dims_end)"
    and "np_min (flatten3 (np_sum_axis3 full)) = Inr m" and "i < 3"
  shows "\<exists>mn mx. np_min (np_where_gt (np_sum_axis3 full) m ! i) = Inr mn \<and>
           np_max (np_where_gt (np_sum_axis3 full) m ! i) = Inr mx \<and>
           dims_begin ! i = max 0 (mn - E) \<and>
           dims_end ! i = min (mx + 1 + E) (B ! i - 1)"
proof -
  from crop_dims_Inr [OF assms(1)] assms(2) obtain X Y Z where
    w: "np_where_gt (np_sum_axis3 full) m = [X, Y, Z]"
    and ne: "X \<noteq> []" "Y \<noteq> []" "Z \<noteq> []"
    and b: "dims_begin = [max 0 (Min (set X) - E), max 0 (Min (set Y) - E),
                         max 0 (Min (set Z) - E)]"
    and e: "dims_end = [min (Max (set X) + 1 + E) (B ! 0 - 1),
                       min (Max (set Y) + 1 + E) (B ! 1 - 1),
                       min (Max (set Z) + 1 + E) (B ! 2 - 1)]"
    by auto
  from assms(3) consider "i = 0" | "i = 1" | "i = 2"
    by linarith
  then show ?thesis
  proof cases
    case 1
    then show ?thesis
      using ne(1) by (simp add: w b e np_min_Min np_max_Max)
  next
    case 2
    then show ?thesis
      using ne(2) by (simp add: w b e np_min_Min np_max_Max)
  next
    case 3
    then show ?thesis
      using ne(3) by (simp add: w b e np_min_Min np_max_Max)
  qed
qed

text \<open>
  C9 (as amended). When every voxel's sum over the channels equals the minimum sum, the
  computation of the ranges and with it \<^verbatim>\<open>_keep_minimum_volume\<close> raises \<open>ValueError\<close> (the
  minimum of an empty index array), and so does the merge of channel volumes that gives
  such a volume; nothing is returned.
\<close>

theorem all_background_raises_ValueError:
  assumes "\<forall>s\<in>set (flatten3 (np_sum_axis3 full)).
             np_min (flatten3 (np_sum_axis3 full)) = Inr s"
  shows "crop_dims E B full = Inl ValueError \<and>
         keep_minimum_volume E B full mask_volume = Inl ValueError \<and>
         (merge_loop S (zeros4 S) 0 volumes = Inr full \<longrightarrow>
            merge_to_one_volume E B S volumes mask_volume' = Inl ValueError)"
proof -
  have crop: "crop_dims E B full = Inl ValueError"
  proof (cases "flatten3 (np_sum_axis3 full) = []")
    case True
    then show ?thesis
      by (simp add: crop_dims_def)
  next
    case False
    then have m: "np_min (flatten3 (np_sum_axis3 full)) =
                    Inr (Min (set (flatten3 (np_sum_axis3 full))))"
      by (rule np_min_Min)
    with assms have "\<forall>s\<in>set (flatten3 (np_sum_axis3 full)).
                       \<not> Min (set (flatten3 (np_sum_axis3 full))) < s"
      by auto
    then have "where_positions (np_sum_axis3 full)
                 (Min (set (flatten3 (np_sum_axis3 full)))) = []"
      by (rule where_positions_Nil)
    with m show ?thesis
      by (rule crop_dims_no_foreground)
  qed
  then have keep: "keep_minimum_volume E B full mv = Inl ValueError" for mv :: "'c arr3"
    by (rule keep_minimum_volume_Inl)
  have "merge_to_one_volume E B S volumes mask_volume' = Inl ValueError"
    if "merge_loop S (zeros4 S) 0 volumes = Inr full"
    using that crop by (simp add: merge_to_one_volume_def keep_minimum_volume_Inl)
  with crop keep_minimum_volume_Inl [OF crop] show ?thesis
    by blast
qed

theorem all_background_raises_ValueError_witness:
  "crop_dims 1 [2, 2, 2] [[[[0, 0], [0, 0]], [[0, 0], [0, 0]]], [[[0, 0], [0, 0]], [[0, 0], [0, 0]]]]
     = Inl ValueError \<and>
   keep_minimum_volume 1 [2, 2, 2]
     [[[[0, 0], [0, 0]], [[0, 0], [0, 0]]], [[[0, 0], [0, 0]], [[0, 0], [0, 0]]]]
     [[[1, 2], [3, 4]], [[5, 6], [7, 8 :: nat]]] = Inl ValueError"
proof -
  have "\<forall>s\<in>set (flatten3 (np_sum_axis3
            [[[[0, 0], [0, 0]], [[0, 0], [0, 0]]], [[[0, 0], [0, 0]], [[0, 0], [0, 0]]]])).
          np_min (flatten3 (np_sum_axis3
            [[[[0, 0], [0, 0]], [[0, 0], [0, 0]]], [[[0, 0], [0, 0]], [[0, 0], [0, 0]]]])) = Inr s"
    by (simp add: flatten3_def np_sum_axis3_def)
  from all_background_raises_ValueError [OF this, of 1 "[2, 2, 2]"
      "[[[1, 2], [3, 4]], [[5, 6], [7, 8 :: nat]]]"]
  show ?thesis by blast
qed

theorem all_background_not_EmptyVolumeError:
  "keep_minimum_volume 1 [2, 2, 2]
     [[[[0, 0], [0, 0]], [[0, 0], [0, 0]]], [[[0, 0], [0, 0]], [[0, 0], [0, 0]]]]
     [[[1, 2], [3, 4]], [[5, 6], [7, 8 :: nat]]] = Inl ValueError \<and>
   keep_minimum_volume 1 [2, 2, 2]
     [[[[0, 0], [0, 0]], [[0, 0], [0, 0]]], [[[0, 0], [0, 0]], [[0, 0], [0, 0]]]]
     [[[1, 2], [3, 4]], [[5, 6], [7, 8 :: nat]]] \<noteq> Inl EmptyVolumeError \<and>
   merge_to_one_volume 1 [2, 2, 2] (2, 2, 2, 2)
     [[[[0, 0], [0, 0]], [[0, 0], [0, 0]]], [[[0, 0], [0, 0]], [[0, 0], [0, 0]]]]
     [[[1, 2], [3, 4]], [[5, 6], [7, 8 :: nat]]] = Inl ValueError"
proof -
  have merged: "merge_loop (2, 2, 2, 2) (zeros4 (2, 2, 2, 2)) 0
      [[[[0, 0], [0, 0]], [[0, 0], [0, 0]]], [[[0, 0], [0, 0]], [[0, 0], [0, 0]]]] =
      Inr [[[[0, 0], [0, 0]], [[0, 0], [0, 0]]], [[[0, 0], [0, 0]], [[0, 0], [0, 0]]]]"
    by (simp add: zeros4_def set_channel_def broadcast3_def broadcast_axis_def rot90_3_def
        numeral_2_eq_2)
  have crop: "crop_dims 1 [2, 2, 2]
      [[[[0, 0], [0, 0]], [[0, 0], [0, 0]]], [[[0, 0], [0, 0]], [[0, 0], [0, 0]]]] =
      Inl ValueError"
    by (simp add: crop_dims_def np_sum_axis3_def flatten3_def np_where_gt_def
        where_positions_def)
  have keep: "keep_minimum_volume 1 [2, 2, 2]
      [[[[0, 0], [0, 0]], [[0, 0], [0, 0]]], [[[0, 0], [0, 0]], [[0, 0], [0, 0]]]] mv =
      Inl ValueError" for mv :: "nat arr3"
    using crop by (rule keep_minimum_volume_Inl)
  have "merge_to_one_volume 1 [2, 2, 2] (2, 2, 2, 2)
     [[[[0, 0], [0, 0]], [[0, 0], [0, 0]]], [[[0, 0], [0, 0]], [[0, 0], [0, 0]]]]
     [[[1, 2], [3, 4]], [[5, 6], [7, 8 :: nat]]] = Inl ValueError"
    unfolding merge_to_one_volume_def merged by (simp only: sum.case keep)
  with keep show ?thesis
    by simp
qed

text \<open>
  C10. The upper bound of each range is capped at \<^verbatim>\<open>BRAIN_SHAPE[i] - 1\<close>, a constant of the
  settings, whatever the extents of the volume given: it is the largest index of a
  non-background voxel on the axis plus 1 plus the margin, unless that exceeds
  \<^verbatim>\<open>BRAIN_SHAPE[i] - 1\<close>. So for a volume whose extent on axis \<open>i\<close> differs from
  \<^verbatim>\<open>BRAIN_SHAPE[i]\<close> the cap is not its own extent minus 1.
\<close>

theorem upper_cap_is_BRAIN_SHAPE:
  assumes "crop_dims E B full = Inr (dims_begin, dims_end)" and "i < 3"
  shows "\<exists>m mx. np_min (flatten3 (np_sum_axis3 full)) = Inr m \<and>
           np_max (np_where_gt (np_sum_axis3 full) m ! i) = Inr mx \<and>
           dims_end ! i = (if mx + 1 + E > B ! i - 1 then B ! i - 1 else mx + 1 + E) \<and>
           dims_end ! i \<le> B ! i - 1 \<and>
           (int (shape4 full ! i) \<noteq> B ! i \<longrightarrow> B ! i - 1 \<noteq> int (shape4 full ! i) - 1)"
proof -
  from crop_dims_Inr [OF assms(1)] obtain m where
    m: "np_min (flatten3 (np_sum_axis3 full)) = Inr m"
    by blast
  from crop_dims_axis [OF assms(1) m assms(2)] obtain mx where
    "np_max (np_where_gt (np_sum_axis3 full) m ! i) = Inr mx"
    "dims_end ! i = min (mx + 1 + E) (B ! i - 1)"
    by blast
  with m show ?thesis
    by (intro exI [of _ m] exI [of _ mx]) (auto simp: min_def)
qed

theorem upper_cap_is_BRAIN_SHAPE_witness:
  "crop_dims 1 [240, 240, 155] [[[[0], [0]], [[0], [0]]], [[[0], [0]], [[0], [5]]]] =
     Inr ([0, 0, 0], [3, 3, 3]) \<and>
   shape4 [[[[0], [0]], [[0], [0]]], [[[0], [0]], [[0], [5 :: real]]]] = [2, 2, 2, 1] \<and>
   (\<exists>m mx. np_min (flatten3 (np_sum_axis3 [[[[0], [0]], [[0], [0]]], [[[0], [0]], [[0], [5]]]]))
              = Inr m \<and>
      np_max (np_where_gt (np_sum_axis3 [[[[0], [0]], [[0], [0]]], [[[0], [0]], [[0], [5]]]]) m ! 0)
        = Inr mx \<and>
      [3, 3, 3] ! 0 = mx + 1 + 1 \<and> [3, 3, 3 :: int] ! 0 \<le> [240, 240, 155] ! 0 - 1)"
proof -
  have run: "crop_dims 1 [240, 240, 155] [[[[0], [0]], [[0], [0]]], [[[0], [0]], [[0], [5]]]] =
     Inr ([0, 0, 0], [3, 3, 3])"
    by (simp add: crop_dims_def np_sum_axis3_def flatten3_def np_where_gt_def
        where_positions_def expand_step_def py_index_def)
  have shp: "shape4 [[[[0], [0]], [[0], [0]]], [[[0], [0]], [[0], [5 :: real]]]] = [2, 2, 2, 1]"
    by (simp add: shape4_def)
  from upper_cap_is_BRAIN_SHAPE [OF run, of 0] run shp show ?thesis
    by (auto split: if_splits)
qed

text \<open>
  C3 (as amended). Whenever the ranges are computed, there are three of them; on each
  axis the lower bound is the smallest index of a non-background voxel minus the margin,
  raised to 0 when negative, and the upper bound is the largest such index plus 1 plus
  the margin, lowered to \<^verbatim>\<open>BRAIN_SHAPE[i] - 1\<close> when above it. Where \<^verbatim>\<open>BRAIN_SHAPE[i]\<close> is at
  most the extent of the volume on the axis, the upper bound is at most that extent
  minus 1. The cut itself never raises.
\<close>

theorem crop_bounds_clamped:
  assumes "crop_dims E B full = Inr (dims_begin, dims_end)"
  shows "length dims_begin = 3 \<and> length dims_end = 3 \<and>
         (\<exists>m. np_min (flatten3 (np_sum_axis3 full)) = Inr m \<and>
            (\<forall>i<3. \<exists>mn mx.
               np_min (np_where_gt (np_sum_axis3 full) m ! i) = Inr mn \<and>
               np_max (np_where_gt (np_sum_axis3 full) m ! i) = Inr mx \<and>
               dims_begin ! i = max 0 (mn - E) \<and>
               dims_end ! i = min (mx + 1 + E) (B ! i - 1) \<and>
               0 \<le> dims_begin ! i \<and> dims_end ! i \<le> B ! i - 1 \<and>
               (B ! i \<le> int (shape4 full ! i) \<longrightarrow>
                  dims_end ! i \<le> int (shape4 full ! i) - 1))) \<and>
         (\<exists>new_full new_mask.
            keep_minimum_volume E B full mask_volume = Inr (new_full, new_mask))"
proof -
  from crop_dims_Inr [OF assms] obtain m where
    m: "np_min (flatten3 (np_sum_axis3 full)) = Inr m"
    and len: "length dims_begin = 3" "length dims_end = 3"
    by auto
  have "\<exists>mn mx.
               np_min (np_where_gt (np_sum_axis3 full) m ! i) = Inr mn \<and>
               np_max (np_where_gt (np_sum_axis3 full) m ! i) = Inr mx \<and>
               dims_begin ! i = max 0 (mn - E) \<and>
               dims_end ! i = min (mx + 1 + E) (B ! i - 1) \<and>
               0 \<le> dims_begin ! i \<and> dims_end ! i \<le> B ! i - 1 \<and>
               (B ! i \<le> int (shape4 full ! i) \<longrightarrow>
                  dims_end ! i \<le> int (shape4 full ! i) - 1)" if "i < 3" for i
  proof -
    from crop_dims_axis [OF assms m that] obtain mn mx where
      "np_min (np_where_gt (np_sum_axis3 full) m ! i) = Inr mn"
      "np_max (np_where_gt (np_sum_axis3 full) m ! i) = Inr mx"
      "dims_begin ! i = max 0 (mn - E)"
      "dims_end ! i = min (mx + 1 + E) (B ! i - 1)"
      by blast
    then show ?thesis
      by (intro exI [of _ mn] exI [of _ mx]) auto
  qed
  with m len keep_minimum_volume_Inr [OF assms, of mask_volume] show ?thesis
    by blast
qed

theorem crop_bounds_clamped_witness:
  "crop_dims 1 [2, 2, 2] [[[[0], [0]], [[0], [0]]], [[[0], [0]], [[0], [5]]]] =
     Inr ([0, 0, 0], [1, 1, 1]) \<and>
   shape4 [[[[0], [0]], [[0], [0]]], [[[0], [0]], [[0], [5 :: real]]]] = [2, 2, 2, 1] \<and>
   keep_minimum_volume 1 [2, 2, 2] [[[[0], [0]], [[0], [0]]], [[[0], [0]], [[0], [5]]]]
     [[[1, 2], [3, 4]], [[5, 6], [7, 8 :: nat]]] = Inr ([[[[0]]]], [[[1]]]) \<and>
   length [0, 0, 0 :: int] = 3 \<and>
   (\<exists>new_full new_mask.
      keep_minimum_volume 1 [2, 2, 2] [[[[0], [0]], [[0], [0]]], [[[0], [0]], [[0], [5]]]]
        [[[1, 2], [3, 4]], [[5, 6], [7, 8 :: nat]]] = Inr (new_full, new_mask))"
proof -
  have run: "crop_dims 1 [2, 2, 2] [[[[0], [0]], [[0], [0]]], [[[0], [0]], [[0], [5]]]] =
     Inr ([0, 0, 0], [1, 1, 1])"
    by (simp add: crop_dims_def np_sum_axis3_def flatten3_def np_where_gt_def
        where_positions_def expand_step_def py_index_def)
  have shp: "shape4 [[[[0], [0]], [[0], [0]]], [[[0], [0]], [[0], [5 :: real]]]] = [2, 2, 2, 1]"
    by (simp add: shape4_def)
  have keep: "keep_minimum_volume 1 [2, 2, 2] [[[[0], [0]], [[0], [0]]], [[[0], [0]], [[0], [5]]]]
     [[[1, 2], [3, 4]], [[5, 6], [7, 8 :: nat]]] = Inr ([[[[0]]]], [[[1]]])"
    by (simp add: keep_minimum_volume_def run sub_array_3 py_slice_def)
  from crop_bounds_clamped [OF run, of "[[[1, 2], [3, 4]], [[5, 6], [7, 8 :: nat]]]"] run shp keep
  show ?thesis by blast
qed

theorem upper_bound_exceeds_own_extent:
  "shape4 [[[[0], [0]], [[0], [0]]], [[[0], [0]], [[0], [5 :: real]]]] = [2, 2, 2, 1] \<and>
   crop_dims 1 [240, 240, 155] [[[[0], [0]], [[0], [0]]], [[[0], [0]], [[0], [5]]]] =
     Inr ([0, 0, 0], [3, 3, 3]) \<and>
   \<not> ([3, 3, 3 :: int] ! 0 \<le>
        int (shape4 [[[[0], [0]], [[0], [0]]], [[[0], [0]], [[0], [5 :: real]]]] ! 0) - 1)"
  by (simp add: crop_dims_def np_sum_axis3_def flatten3_def np_where_gt_def
      where_positions_def expand_step_def py_index_def shape4_def)

section \<open>The merge of volumes with a single non-background voxel\<close>

lemma upt_4: "[0..<4] = [0, 1, 2, 3 :: nat]"
  by (simp add: upt_rec)

lemma rot90_3_single_voxel_volume:
  "rot90_3 (single_voxel_volume v) =
     [[[0, 0, 0, 0], [0, 0, 0, 0], [0, 0, 0, 0], [0, 0, 0, 0]],
      [[0, 0, 0, 0], [0, 0, 0, 0], [0, 0, 0, 0], [0, 0, 0, 0]],
      [[0, 0, 0, 0], [0, 0, v, 0], [0, 0, 0, 0], [0, 0, 0, 0]],
      [[0, 0, 0, 0], [0, 0, 0, 0], [0, 0, 0, 0], [0, 0, 0, 0]]]"
  by (simp add: single_voxel_volume_def upt_4 rot90_3_def)

lemma broadcast3_4:
  "broadcast3 4 4 4
     [[[a00, a01, a02, a03], [a10, a11, a12, a13], [a20, a21, a22, a23], [a30, a31, a32, a33]],
      [[b00, b01, b02, b03], [b10, b11, b12, b13], [b20, b21, b22, b23], [b30, b31, b32, b33]],
      [[c00, c01, c02, c03], [c10, c11, c12, c13], [c20, c21, c22, c23], [c30, c31, c32, c33]],
      [[d00, d01, d02, d03], [d10, d11, d12, d13], [d20, d21, d22, d23], [d30, d31, d32, d33]]] =
   Some
     [[[a00, a01, a02, a03], [a10, a11, a12, a13], [a20, a21, a22, a23], [a30, a31, a32, a33]],
      [[b00, b01, b02, b03], [b10, b11, b12, b13], [b20, b21, b22, b23], [b30, b31, b32, b33]],
      [[c00, c01, c02, c03], [c10, c11, c12, c13], [c20, c21, c22, c23], [c30, c31, c32, c33]],
      [[d00, d01, d02, d03], [d10, d11, d12, d13], [d20, d21, d22, d23], [d30, d31, d32, d33]]]"
  by (simp add: broadcast3_def broadcast_axis_def)

lemma zeros4_4:
  "zeros4 (4, 4, 4, 4) =
     [[[[0, 0, 0, 0], [0, 0, 0, 0], [0, 0, 0, 0], [0, 0, 0, 0]],
       [[0, 0, 0, 0], [0, 0, 0, 0], [0, 0, 0, 0], [0, 0, 0, 0]],
       [[0, 0, 0, 0], [0, 0, 0, 0], [0, 0, 0, 0], [0, 0, 0, 0]],
       [[0, 0, 0, 0], [0, 0, 0, 0], [0, 0, 0, 0], [0, 0, 0, 0]]],
      [[[0, 0, 0, 0], [0, 0, 0, 0], [0, 0, 0, 0], [0, 0, 0, 0]],
       [[0, 0, 0, 0], [0, 0, 0, 0], [0, 0, 0, 0], [0, 0, 0, 0]],
       [[0, 0, 0, 0], [0, 0, 0, 0], [0, 0, 0, 0], [0, 0, 0, 0]],
       [[0, 0, 0, 0], [0, 0, 0, 0], [0, 0, 0, 0], [0, 0, 0, 0]]],
      [[[0, 0, 0, 0], [0, 0, 0, 0], [0, 0, 0, 0], [0, 0, 0, 0]],
       [[0, 0, 0, 0], [0, 0, 0, 0], [0, 0, 0, 0], [0, 0, 0, 0]],
       [[0, 0, 0, 0], [0, 0, 0, 0], [0, 0, 0, 0], [0, 0, 0, 0]],
       [[0, 0, 0, 0], [0, 0, 0, 0], [0, 0, 0, 0], [0, 0, 0, 0]]],
      [[[0, 0, 0, 0], [0, 0, 0, 0], [0, 0, 0, 0], [0, 0, 0, 0]],
       [[0, 0, 0, 0], [0, 0, 0, 0], [0, 0, 0, 0], [0, 0, 0, 0]],
       [[0, 0, 0, 0], [0, 0, 0, 0], [0, 0, 0, 0], [0, 0, 0, 0]],
       [[0, 0, 0, 0], [0, 0, 0, 0], [0, 0, 0, 0], [0, 0, 0, 0]]]]"
  by (simp add: zeros4_def numeral_eq_Suc)

lemma merge_single_voxel_volumes:
  "merge_loop (4, 4, 4, 4) (zeros4 (4, 4, 4, 4)) 0
     [single_voxel_volume a, single_voxel_volume b, single_voxel_volume c,
      single_voxel_volume d] =
   Inr (single_voxel_full (2, 1, 2) [a, b, c, d])"
  by (simp add: rot90_3_single_voxel_volume set_channel_def broadcast3_4 zeros4_4
      single_voxel_full_def upt_4)

lemma crop_dims_single_voxel_212:
  assumes "0 < a + b + c + d"
  shows "crop_dims E B (single_voxel_full (2, 1, 2) [a, b, c, d]) =
     (if 3 \<le> length B then
        Inr ([max 0 (2 - E), max 0 (1 - E), max 0 (2 - E)],
             [min (3 + E) (B ! 0 - 1), min (2 + E) (B ! 1 - 1), min (3 + E) (B ! 2 - 1)])
      else Inl IndexError)"
proof -
  have m: "np_min (flatten3 (np_sum_axis3 (single_voxel_full (2, 1, 2) [a, b, c, d]))) = Inr 0"
    using assms by (simp add: single_voxel_full_def upt_4 np_sum_axis3_def flatten3_def)
  have w: "np_where_gt (np_sum_axis3 (single_voxel_full (2, 1, 2) [a, b, c, d])) 0 =
             [[2], [1], [2]]"
    using assms
    by (simp add: single_voxel_full_def upt_4 np_sum_axis3_def np_where_gt_def
        where_positions_def)
  from crop_dims_foreground [OF m w, of E B] show ?thesis
    by simp
qed

lemma crop_dims_single_voxel_222:
  assumes "0 < a + b + c + d"
  shows "crop_dims E B (single_voxel_full (2, 2, 2) [a, b, c, d]) =
     (if 3 \<le> length B then
        Inr ([max 0 (2 - E), max 0 (2 - E), max 0 (2 - E)],
             [min (3 + E) (B ! 0 - 1), min (3 + E) (B ! 1 - 1), min (3 + E) (B ! 2 - 1)])
      else Inl IndexError)"
proof -
  have m: "np_min (flatten3 (np_sum_axis3 (single_voxel_full (2, 2, 2) [a, b, c, d]))) = Inr 0"
    using assms by (simp add: single_voxel_full_def upt_4 np_sum_axis3_def flatten3_def)
  have w: "np_where_gt (np_sum_axis3 (single_voxel_full (2, 2, 2) [a, b, c, d])) 0 =
             [[2], [2], [2]]"
    using assms
    by (simp add: single_voxel_full_def upt_4 np_sum_axis3_def np_where_gt_def
        where_positions_def)
  from crop_dims_foreground [OF m w, of E B] show ?thesis
    by simp
qed

lemma keep_minimum_volume_cut:
  assumes "crop_dims E B full = Inr ([b0, b1, b2], [e0, e1, e2])"
    and "sub_array full [b0, b1, b2] [e0, e1, e2] = Inr new_full"
  shows "\<exists>new_mask. keep_minimum_volume E B full mask_volume = Inr (new_full, new_mask)"
  using assms by (simp add: keep_minimum_volume_def sub_array_3)

lemma sub_array_single_voxel_212_small:
  "\<exists>new_full. sub_array (single_voxel_full (2, 1, 2) [a, b, c, d]) [1, 0, 1] [3, 3, 3] =
                Inr new_full \<and> shape4 new_full = [2, 3, 2, 4]"
  by (simp add: sub_array_3 single_voxel_full_def upt_4 py_slice_def shape4_def)

lemma sub_array_single_voxel_212_large:
  "\<exists>new_full. sub_array (single_voxel_full (2, 1, 2) [a, b, c, d]) [1, 0, 1] [4, 3, 4] =
                Inr new_full \<and> shape4 new_full = [3, 3, 3, 4]"
  by (simp add: sub_array_3 single_voxel_full_def upt_4 py_slice_def shape4_def)

lemma sub_array_single_voxel_222_small:
  "\<exists>new_full. sub_array (single_voxel_full (2, 2, 2) [a, b, c, d]) [1, 1, 1] [3, 3, 3] =
                Inr new_full \<and> shape4 new_full = [2, 2, 2, 4]"
  by (simp add: sub_array_3 single_voxel_full_def upt_4 py_slice_def shape4_def)

lemma sub_array_single_voxel_222_large:
  "\<exists>new_full. sub_array (single_voxel_full (2, 2, 2) [a, b, c, d]) [1, 1, 1] [4, 4, 4] =
                Inr new_full \<and> shape4 new_full = [3, 3, 3, 4]"
  by (simp add: sub_array_3 single_voxel_full_def upt_4 py_slice_def shape4_def)

lemma merge_to_one_volume_keep:
  assumes "merge_loop S (zeros4 S) 0 volumes = Inr full"
  shows "merge_to_one_volume E B S volumes mask_volume =
           keep_minimum_volume E B full (rot90_3 mask_volume)"
  using assms by (simp add: merge_to_one_volume_def)

lemma single_voxel_small:
  assumes "0 < a + b + c + d"
  shows "crop_dims 1 [4, 4, 4] (single_voxel_full (2, 1, 2) [a, b, c, d]) =
           Inr ([1, 0, 1], [3, 3, 3])"
    and "crop_dims 1 [4, 4, 4] (single_voxel_full (2, 2, 2) [a, b, c, d]) =
           Inr ([1, 1, 1], [3, 3, 3])"
    and "\<exists>new_full new_mask.
           merge_to_one_volume 1 [4, 4, 4] (4, 4, 4, 4)
             [single_voxel_volume a, single_voxel_volume b, single_voxel_volume c,
              single_voxel_volume d] mask_volume = Inr (new_full, new_mask) \<and>
           shape4 new_full = [2, 3, 2, 4]"
    and "\<exists>new_full new_mask.
           keep_minimum_volume 1 [4, 4, 4] (single_voxel_full (2, 2, 2) [a, b, c, d])
             mask_volume' = Inr (new_full, new_mask) \<and>
           shape4 new_full = [2, 2, 2, 4]"
proof -
  show c1: "crop_dims 1 [4, 4, 4] (single_voxel_full (2, 1, 2) [a, b, c, d]) =
           Inr ([1, 0, 1], [3, 3, 3])"
    using crop_dims_single_voxel_212 [OF assms, of 1 "[4, 4, 4]"] by simp
  show c2: "crop_dims 1 [4, 4, 4] (single_voxel_full (2, 2, 2) [a, b, c, d]) =
           Inr ([1, 1, 1], [3, 3, 3])"
    using crop_dims_single_voxel_222 [OF assms, of 1 "[4, 4, 4]"] by simp
  obtain nf where nf: "sub_array (single_voxel_full (2, 1, 2) [a, b, c, d]) [1, 0, 1] [3, 3, 3] =
                Inr nf" "shape4 nf = [2, 3, 2, 4]"
    using sub_array_single_voxel_212_small by blast
  from keep_minimum_volume_cut [OF c1 nf(1)] nf(2)
  show "\<exists>new_full new_mask.
           merge_to_one_volume 1 [4, 4, 4] (4, 4, 4, 4)
             [single_voxel_volume a, single_voxel_volume b, single_voxel_volume c,
              single_voxel_volume d] mask_volume = Inr (new_full, new_mask) \<and>
           shape4 new_full = [2, 3, 2, 4]"
    unfolding merge_to_one_volume_keep [OF merge_single_voxel_volumes] by blast
  obtain nf' where nf': "sub_array (single_voxel_full (2, 2, 2) [a, b, c, d]) [1, 1, 1] [3, 3, 3] =
                Inr nf'" "shape4 nf' = [2, 2, 2, 4]"
    using sub_array_single_voxel_222_small by blast
  from keep_minimum_volume_cut [OF c2 nf'(1)] nf'(2)
  show "\<exists>new_full new_mask.
           keep_minimum_volume 1 [4, 4, 4] (single_voxel_full (2, 2, 2) [a, b, c, d])
             mask_volume' = Inr (new_full, new_mask) \<and>
           shape4 new_full = [2, 2, 2, 4]"
    by blast
qed

lemma single_voxel_large:
  assumes "0 < a + b + c + d" and "3 \<le> length B"
    and "5 \<le> B ! 0" and "5 \<le> B ! 1" and "5 \<le> B ! 2"
  shows "crop_dims 1 B (single_voxel_full (2, 1, 2) [a, b, c, d]) =
           Inr ([1, 0, 1], [4, 3, 4])"
    and "crop_dims 1 B (single_voxel_full (2, 2, 2) [a, b, c, d]) =
           Inr ([1, 1, 1], [4, 4, 4])"
    and "\<exists>new_full new_mask.
           merge_to_one_volume 1 B (4, 4, 4, 4)
             [single_voxel_volume a, single_voxel_volume b, single_voxel_volume c,
              single_voxel_volume d] mask_volume = Inr (new_full, new_mask) \<and>
           shape4 new_full = [3, 3, 3, 4]"
    and "\<exists>new_full new_mask.
           keep_minimum_volume 1 B (single_voxel_full (2, 2, 2) [a, b, c, d])
             mask_volume' = Inr (new_full, new_mask) \<and>
           shape4 new_full = [3, 3, 3, 4]"
proof -
  show c1: "crop_dims 1 B (single_voxel_full (2, 1, 2) [a, b, c, d]) =
           Inr ([1, 0, 1], [4, 3, 4])"
    using crop_dims_single_voxel_212 [OF assms(1), of 1 B] assms(2-5) by simp
  show c2: "crop_dims 1 B (single_voxel_full (2, 2, 2) [a, b, c, d]) =
           Inr ([1, 1, 1], [4, 4, 4])"
    using crop_dims_single_voxel_222 [OF assms(1), of 1 B] assms(2-5) by simp
  obtain nf where nf: "sub_array (single_voxel_full (2, 1, 2) [a, b, c, d]) [1, 0, 1] [4, 3, 4] =
                Inr nf" "shape4 nf = [3, 3, 3, 4]"
    using sub_array_single_voxel_212_large by blast
  from keep_minimum_volume_cut [OF c1 nf(1)] nf(2)
  show "\<exists>new_full new_mask.
           merge_to_one_volume 1 B (4, 4, 4, 4)
             [single_voxel_volume a, single_voxel_volume b, single_voxel_volume c,
              single_voxel_volume d] mask_volume = Inr (new_full, new_mask) \<and>
           shape4 new_full = [3, 3, 3, 4]"
    unfolding merge_to_one_volume_keep [OF merge_single_voxel_volumes] by blast
  obtain nf' where nf': "sub_array (single_voxel_full (2, 2, 2) [a, b, c, d]) [1, 1, 1] [4, 4, 4] =
                Inr nf'" "shape4 nf' = [3, 3, 3, 4]"
    using sub_array_single_voxel_222_large by blast
  from keep_minimum_volume_cut [OF c2 nf'(1)] nf'(2)
  show "\<exists>new_full new_mask.
           keep_minimum_volume 1 B (single_voxel_full (2, 2, 2) [a, b, c, d])
             mask_volume' = Inr (new_full, new_mask) \<and>
           shape4 new_full = [3, 3, 3, 4]"
    by blast
qed

text \<open>
  C2 (as amended). Four channel volumes of shape \<open>(4, 4, 4)\<close> whose only non-background
  voxel, at index \<open>(2, 2, 2)\<close>, is positive, merged for \<^verbatim>\<open>FULL_SHAPE\<close> \<open>(4, 4, 4, 4)\<close>: the
  rotation puts the voxel at index \<open>(2, 1, 2)\<close> of the merged volume, and with margin 1 the
  ranges are \<open>[1, min(4, B0 - 1))\<close>, \<open>[0, min(3, B1 - 1))\<close> and \<open>[1, min(4, B2 - 1))\<close> for
  \<^verbatim>\<open>BRAIN_SHAPE\<close> \<open>(B0, B1, B2)\<close>. For a merged volume whose only non-background voxel is
  \<open>(2, 2, 2)\<close> itself they are \<open>[1, min(4, Bi - 1))\<close> on each axis. With \<^verbatim>\<open>BRAIN_SHAPE\<close>
  \<open>(4, 4, 4)\<close> the cut volumes have the shapes \<open>(2, 3, 2, 4)\<close> and \<open>(2, 2, 2, 4)\<close>; with
  every entry of \<^verbatim>\<open>BRAIN_SHAPE\<close> at least 5 both have the shape \<open>(3, 3, 3, 4)\<close>.
\<close>

theorem merge_single_voxel_box:
  assumes "0 < a" and "0 < b" and "0 < c" and "0 < d" and "length B = 3"
  shows "merge_loop (4, 4, 4, 4) (zeros4 (4, 4, 4, 4)) 0
           [single_voxel_volume a, single_voxel_volume b, single_voxel_volume c,
            single_voxel_volume d] = Inr (single_voxel_full (2, 1, 2) [a, b, c, d]) \<and>
         crop_dims 1 B (single_voxel_full (2, 1, 2) [a, b, c, d]) =
           Inr ([1, 0, 1], [min 4 (B ! 0 - 1), min 3 (B ! 1 - 1), min 4 (B ! 2 - 1)]) \<and>
         crop_dims 1 B (single_voxel_full (2, 2, 2) [a, b, c, d]) =
           Inr ([1, 1, 1], [min 4 (B ! 0 - 1), min 4 (B ! 1 - 1), min 4 (B ! 2 - 1)]) \<and>
         (B = [4, 4, 4] \<longrightarrow>
            (\<exists>new_full new_mask.
               merge_to_one_volume 1 B (4, 4, 4, 4)
                 [single_voxel_volume a, single_voxel_volume b, single_voxel_volume c,
                  single_voxel_volume d] mask_volume = Inr (new_full, new_mask) \<and>
               shape4 new_full = [2, 3, 2, 4]) \<and>
            (\<exists>new_full new_mask.
               keep_minimum_volume 1 B (single_voxel_full (2, 2, 2) [a, b, c, d])
                 mask_volume' = Inr (new_full, new_mask) \<and>
               shape4 new_full = [2, 2, 2, 4])) \<and>
         (5 \<le> B ! 0 \<and> 5 \<le> B ! 1 \<and> 5 \<le> B ! 2 \<longrightarrow>
            (\<exists>new_full new_mask.
               merge_to_one_volume 1 B (4, 4, 4, 4)
                 [single_voxel_volume a, single_voxel_volume b, single_voxel_volume c,
                  single_voxel_volume d] mask_volume = Inr (new_full, new_mask) \<and>
               shape4 new_full = [3, 3, 3, 4]) \<and>
            (\<exists>new_full new_mask.
               keep_minimum_volume 1 B (single_voxel_full (2, 2, 2) [a, b, c, d])
                 mask_volume' = Inr (new_full, new_mask) \<and>
               shape4 new_full = [3, 3, 3, 4]))"
proof -
  have pos: "0 < a + b + c + d"
    using assms(1-4) by linarith
  have len: "3 \<le> length B"
    using assms(5) by simp
  have c1: "crop_dims 1 B (single_voxel_full (2, 1, 2) [a, b, c, d]) =
           Inr ([1, 0, 1], [min 4 (B ! 0 - 1), min 3 (B ! 1 - 1), min 4 (B ! 2 - 1)])"
    using crop_dims_single_voxel_212 [OF pos, of 1 B] len by simp
  have c2: "crop_dims 1 B (single_voxel_full (2, 2, 2) [a, b, c, d]) =
           Inr ([1, 1, 1], [min 4 (B ! 0 - 1), min 4 (B ! 1 - 1), min 4 (B ! 2 - 1)])"
    using crop_dims_single_voxel_222 [OF pos, of 1 B] len by simp
  have small: "(\<exists>new_full new_mask.
               merge_to_one_volume 1 B (4, 4, 4, 4)
                 [single_voxel_volume a, single_voxel_volume b, single_voxel_volume c,
                  single_voxel_volume d] mask_volume = Inr (new_full, new_mask) \<and>
               shape4 new_full = [2, 3, 2, 4]) \<and>
            (\<exists>new_full new_mask.
               keep_minimum_volume 1 B (single_voxel_full (2, 2, 2) [a, b, c, d])
                 mask_volume' = Inr (new_full, new_mask) \<and>
               shape4 new_full = [2, 2, 2, 4])" if "B = [4, 4, 4]"
    unfolding that
    using single_voxel_small(3) [OF pos, of mask_volume]
      single_voxel_small(4) [OF pos, of mask_volume']
    by blast
  have large: "(\<exists>new_full new_mask.
               merge_to_one_volume 1 B (4, 4, 4, 4)
                 [single_voxel_volume a, single_voxel_volume b, single_voxel_volume c,
                  single_voxel_volume d] mask_volume = Inr (new_full, new_mask) \<and>
               shape4 new_full = [3, 3, 3, 4]) \<and>
            (\<exists>new_full new_mask.
               keep_minimum_volume 1 B (single_voxel_full (2, 2, 2) [a, b, c, d])
                 mask_volume' = Inr (new_full, new_mask) \<and>
               shape4 new_full = [3, 3, 3, 4])" if "5 \<le> B ! 0 \<and> 5 \<le> B ! 1 \<and> 5 \<le> B ! 2"
    using single_voxel_large(3) [OF pos len, of mask_volume]
      single_voxel_large(4) [OF pos len, of mask_volume'] that
    by blast
  from merge_single_voxel_volumes [of a b c d] c1 c2 small large show ?thesis
    by blast
qed

theorem merge_single_voxel_box_witness:
  "(0 :: real) < 1 \<and> (0 :: real) < 2 \<and> (0 :: real) < 3 \<and> (0 :: real) < 4 \<and>
   length [240, 240, 155 :: int] = 3 \<and>
   crop_dims 1 [240, 240, 155] (single_voxel_full (2, 1, 2) [1, 2, 3, 4]) =
     Inr ([1, 0, 1], [4, 3, 4]) \<and>
   crop_dims 1 [240, 240, 155] (single_voxel_full (2, 2, 2) [1, 2, 3, 4]) =
     Inr ([1, 1, 1], [4, 4, 4]) \<and>
   (\<exists>new_full new_mask.
      merge_to_one_volume 1 [240, 240, 155] (4, 4, 4, 4)
        [single_voxel_volume 1, single_voxel_volume 2, single_voxel_volume 3,
         single_voxel_volume 4] [[[0 :: nat]]] = Inr (new_full, new_mask) \<and>
      shape4 new_full = [3, 3, 3, 4])"
proof -
  have p: "(0 :: real) < 1" "(0 :: real) < 2" "(0 :: real) < 3" "(0 :: real) < 4"
    by simp_all
  have l: "length [240, 240, 155 :: int] = 3"
    by simp
  from merge_single_voxel_box [OF p l, of "[[[0 :: nat]]]" "[[[0 :: nat]]]"] p l
  show ?thesis
    by simp
qed

theorem merge_single_voxel_box_not_1_4:
  "merge_loop (4, 4, 4, 4) (zeros4 (4, 4, 4, 4)) 0
     [single_voxel_volume 1, single_voxel_volume 2, single_voxel_volume 3,
      single_voxel_volume 4] = Inr (single_voxel_full (2, 1, 2) [1, 2, 3, 4]) \<and>
   crop_dims 1 [4, 4, 4] (single_voxel_full (2, 1, 2) [1, 2, 3, 4]) =
     Inr ([1, 0, 1], [3, 3, 3]) \<and>
   crop_dims 1 [4, 4, 4] (single_voxel_full (2, 1, 2) [1, 2, 3, 4]) \<noteq>
     Inr ([1, 1, 1], [4, 4, 4]) \<and>
   crop_dims 1 [4, 4, 4] (single_voxel_full (2, 2, 2) [1, 2, 3, 4]) =
     Inr ([1, 1, 1], [3, 3, 3]) \<and>
   (\<exists>new_full new_mask.
      merge_to_one_volume 1 [4, 4, 4] (4, 4, 4, 4)
        [single_voxel_volume 1, single_voxel_volume 2, single_voxel_volume 3,
         single_voxel_volume 4] [[[0 :: nat]]] = Inr (new_full, new_mask) \<and>
      shape4 new_full = [2, 3, 2, 4] \<and> shape4 new_full \<noteq> [3, 3, 3, 4])"
proof -
  have pos: "(0 :: real) < 1 + 2 + 3 + 4"
    by simp
  from single_voxel_small(3) [OF pos, of "[[[0 :: nat]]]"] obtain new_full new_mask where
    "merge_to_one_volume 1 [4, 4, 4] (4, 4, 4, 4)
        [single_voxel_volume 1, single_voxel_volume 2, single_voxel_volume 3,
         single_voxel_volume 4] [[[0 :: nat]]] = Inr (new_full, new_mask)"
    "shape4 new_full = [2, 3, 2, 4]"
    by blast
  then have "\<exists>new_full new_mask.
      merge_to_one_volume 1 [4, 4, 4] (4, 4, 4, 4)
        [single_voxel_volume 1, single_voxel_volume 2, single_voxel_volume 3,
         single_voxel_volume 4] [[[0 :: nat]]] = Inr (new_full, new_mask) \<and>
      shape4 new_full = [2, 3, 2, 4] \<and> shape4 new_full \<noteq> [3, 3, 3, 4]"
    by auto
  with merge_single_voxel_volumes [of 1 2 3 4] single_voxel_small(1,2) [OF pos]
  show ?thesis
    by simp
qed

end
